(* ===== verification/Prelude.thy ===== *)
theory Prelude
  imports Main "HOL-Library.Sublist"
begin

text \<open>
  Shared vocabulary of the development: the collections of rewrite rules that the
  component theories fill and the generic lemmas on lists and options that their
  proofs share. Nothing here is specific to the trivia API.
\<close>

named_theorems py_simps "unfolding rules of the Python runtime combinators"
named_theorems store_simps "equations of the store queries and updates"
named_theorems handler_defs "definitions of the request handlers"

section \<open>Lists\<close>

lemma find_Some_set:
  assumes "find P xs = Some x"
  shows "x \<in> set xs \<and> P x"
  using assms by (induction xs) (auto split: if_splits)

lemma find_None_all:
  "find P xs = None \<longleftrightarrow> (\<forall>x\<in>set xs. \<not> P x)"
  by (induction xs) auto

lemma sublist_iff_split:
  "sublist xs ys \<longleftrightarrow> (\<exists>a b. ys = a @ xs @ b)"
  by (auto simp: sublist_def)

lemma suffix_iff_split:
  "suffix xs ys \<longleftrightarrow> (\<exists>a. ys = a @ xs)"
  by (auto simp: suffix_def)

section \<open>Maps\<close>

lemma map_add_singleton_fresh: "k \<notin> dom m \<Longrightarrow> [k \<mapsto> v] ++ m = m(k \<mapsto> v)"
  by (auto simp: map_add_def fun_eq_iff split: option.splits)

end
