(* ===== verification/Py_Runtime.thy ===== *)
theory Py_Runtime
  imports Prelude
begin

text \<open>
  The fragment of Python and of the Flask/Werkzeug helpers that the handlers of
  \<^verbatim>\<open>src/backend/flaskr/__init__.py\<close> rely on: exceptions, runtime values, the
  sequencing of statements that may raise (with \<^verbatim>\<open>try/except/finally\<close>), dictionary
  subscription, list slicing with Python's negative indices, \<^verbatim>\<open>int()\<close> on strings as
  used by \<^verbatim>\<open>request.args.get(..., type=int)\<close>, and \<^verbatim>\<open>jsonify\<close>.
\<close>

section \<open>Exceptions and values\<close>

text \<open>
  \<open>HTTPAbort c\<close> is the \<^verbatim>\<open>HTTPException\<close> raised by \<^verbatim>\<open>abort(c)\<close>; \<open>StoreError\<close>
  is any exception raised by the database layer.
\<close>

datatype py_exc = KeyError | TypeError | AttributeError | IndexError | ValueError
  | StoreError | HTTPAbort nat

text \<open>
  Runtime values: \<open>PObj cls attrs\<close> is an instance of a user class (a mapped row of the
  store) with its attribute dictionary \<^verbatim>\<open>__dict__\<close>.
\<close>

datatype pyval = PNone | PBool bool | PInt int | PStr string | PList "pyval list"
  | PDict "(pyval \<times> pyval) list" | PObj string "(string \<times> pyval) list"

text \<open>Serialised JSON, the body \<^verbatim>\<open>jsonify\<close> produces.\<close>

datatype json = JNull | JBool bool | JInt int | JStr string | JArr "json list"
  | JObj "(string \<times> json) list"

section \<open>Statements that raise, over an explicit state\<close>

text \<open>
  A statement runs on a state \<open>'w\<close> and either returns a value (\<open>Inr\<close>) or raises
  (\<open>Inl\<close>); in both cases the state it leaves is returned, since effects made before a
  raise persist.
\<close>

type_synonym ('w, 'a) py = "'w \<Rightarrow> (py_exc + 'a) \<times> 'w"

definition py_return :: "'a \<Rightarrow> ('w, 'a) py" where
  "py_return x = (\<lambda>w. (Inr x, w))"

definition py_raise :: "py_exc \<Rightarrow> ('w, 'a) py" where
  "py_raise e = (\<lambda>w. (Inl e, w))"

definition py_lift :: "py_exc + 'a \<Rightarrow> ('w, 'a) py" where
  "py_lift r = (\<lambda>w. (r, w))"

definition py_bind :: "('w, 'a) py \<Rightarrow> ('a \<Rightarrow> ('w, 'b) py) \<Rightarrow> ('w, 'b) py" where
  "py_bind m f = (\<lambda>w. case m w of (Inl e, w') \<Rightarrow> (Inl e, w') | (Inr x, w') \<Rightarrow> f x w')"

definition py_then :: "('w, 'a) py \<Rightarrow> ('w, 'b) py \<Rightarrow> ('w, 'b) py" where
  "py_then m n = py_bind m (\<lambda>_. n)"

text \<open>\<^verbatim>\<open>if cond: stmt\<close> with no else branch.\<close>

definition py_when :: "bool \<Rightarrow> ('w, unit) py \<Rightarrow> ('w, unit) py" where
  "py_when b m = (if b then m else py_return ())"

definition abort :: "nat \<Rightarrow> ('w, 'a) py" where
  "abort c = py_raise (HTTPAbort c)"

text \<open>
  \<^verbatim>\<open>try: body except: handler finally: fin\<close> with a bare \<^verbatim>\<open>except\<close>, which
  catches every exception, \<^verbatim>\<open>HTTPException\<close> included. The \<^verbatim>\<open>finally\<close> block runs
  after the handler; the outcome of body or handler survives it unless it raises itself.
\<close>

definition py_try :: "('w, 'a) py \<Rightarrow> (py_exc \<Rightarrow> ('w, 'a) py) \<Rightarrow> ('w, unit) py \<Rightarrow> ('w, 'a) py" where
  "py_try body handler fin = (\<lambda>w.
     case body w of (r, w1) \<Rightarrow>
       (case (case r of Inl e \<Rightarrow> handler e w1 | Inr x \<Rightarrow> (Inr x, w1)) of (r2, w2) \<Rightarrow>
         (case fin w2 of (Inl e', w3) \<Rightarrow> (Inl e', w3) | (Inr _, w3) \<Rightarrow> (r2, w3))))"

definition py_try_except :: "('w, 'a) py \<Rightarrow> (py_exc \<Rightarrow> ('w, 'a) py) \<Rightarrow> ('w, 'a) py" where
  "py_try_except body handler = py_try body handler (py_return ())"

lemmas py_combinators [py_simps] = py_return_def py_raise_def py_lift_def py_bind_def
  py_then_def py_when_def abort_def py_try_def py_try_except_def

lemma py_bind_return [simp]: "py_bind (py_return x) f = f x"
  by (simp add: py_bind_def py_return_def)

lemma py_bind_raise [simp]: "py_bind (py_raise e) f = py_raise e"
  by (simp add: py_bind_def py_raise_def)

lemma py_bind_assoc: "py_bind (py_bind m f) g = py_bind m (\<lambda>x. py_bind (f x) g)"
  by (rule ext) (simp add: py_bind_def split: prod.splits sum.splits)

lemma py_try_return_body:
  "py_try (py_return x) h fin w = (case fin w of (Inl e', w3) \<Rightarrow> (Inl e', w3) | (Inr _, w3) \<Rightarrow> (Inr x, w3))"
  by (simp add: py_try_def py_return_def)

section \<open>Dictionaries, equality and strings\<close>

text \<open>
  Subscription \<^verbatim>\<open>v[k]\<close>. A dict built from a literal or by \<^verbatim>\<open>json.loads\<close> keeps
  the last value bound to a repeated key, hence the lookup in the reversed list. Lists take
  integer indices, negative ones counting from the end; everything else (None, numbers,
  instances without \<^verbatim>\<open>__getitem__\<close>) raises \<^verbatim>\<open>TypeError\<close>.
\<close>

fun py_getitem :: "pyval \<Rightarrow> pyval \<Rightarrow> py_exc + pyval" where
  "py_getitem (PDict kvs) k = (case map_of (rev kvs) k of Some v \<Rightarrow> Inr v | None \<Rightarrow> Inl KeyError)"
| "py_getitem (PList vs) (PInt i) =
     (let n = int (length vs); j = (if i < 0 then n + i else i)
      in if 0 \<le> j \<and> j < n then Inr (vs ! nat j) else Inl IndexError)"
| "py_getitem (PList vs) _ = Inl TypeError"
| "py_getitem _ _ = Inl TypeError"

lemma py_getitem_error:
  "py_getitem v k = Inl e \<Longrightarrow> e = KeyError \<or> e = IndexError \<or> e = TypeError"
  by (induction v k rule: py_getitem.induct) (auto simp: Let_def split: option.splits if_splits)

text \<open>Attribute access \<^verbatim>\<open>v.attr\<close>; \<^verbatim>\<open>__dict__\<close> of an instance is its attribute dict.\<close>

fun py_getattr :: "pyval \<Rightarrow> string \<Rightarrow> py_exc + pyval" where
  "py_getattr (PObj cls attrs) a =
     (if a = ''__dict__'' then Inr (PDict (map (\<lambda>(k, v). (PStr k, v)) attrs))
      else case map_of attrs a of Some v \<Rightarrow> Inr v | None \<Rightarrow> Inl AttributeError)"
| "py_getattr _ _ = Inl AttributeError"

text \<open>
  \<^verbatim>\<open>d[k] = v\<close>: overwrite in place when the key is present, append otherwise (Python
  dicts keep insertion order).
\<close>

fun py_dict_set :: "(pyval \<times> pyval) list \<Rightarrow> pyval \<Rightarrow> pyval \<Rightarrow> (pyval \<times> pyval) list" where
  "py_dict_set [] k v = [(k, v)]"
| "py_dict_set ((k', v') # kvs) k v =
     (if k' = k then (k', v) # kvs else (k', v') # py_dict_set kvs k v)"

text \<open>\<^verbatim>\<open>v == n\<close> for an integer \<open>n\<close>: \<^verbatim>\<open>bool\<close> is a subclass of \<^verbatim>\<open>int\<close>.\<close>

fun py_eq_int :: "pyval \<Rightarrow> int \<Rightarrow> bool" where
  "py_eq_int (PInt m) n = (m = n)"
| "py_eq_int (PBool b) n = (of_bool b = n)"
| "py_eq_int _ n = False"

text \<open>\<^verbatim>\<open>a + b\<close> where the left operand is a string.\<close>

fun py_str_concat :: "pyval \<Rightarrow> pyval \<Rightarrow> py_exc + pyval" where
  "py_str_concat (PStr a) (PStr b) = Inr (PStr (a @ b))"
| "py_str_concat _ _ = Inl TypeError"

section \<open>Slicing\<close>

text \<open>
  \<^verbatim>\<open>xs[i:j]\<close> with step 1: a negative bound counts from the end, then each bound is
  clamped to \<open>[0, len xs]\<close>; an empty range gives the empty list.
\<close>

definition py_slice_bound :: "int \<Rightarrow> nat \<Rightarrow> nat" where
  "py_slice_bound i n = (if i < 0 then nat (max 0 (int n + i)) else min (nat i) n)"

definition py_slice :: "'a list \<Rightarrow> int \<Rightarrow> int \<Rightarrow> 'a list" where
  "py_slice xs i j =
     (let n = length xs; a = py_slice_bound i n; b = py_slice_bound j n
      in take (b - a) (drop a xs))"

lemma min_diff_min: "(a::nat) \<le> b \<Longrightarrow> min b L - min a L = min (b - a) (L - a)"
  by (cases "b \<le> L"; cases "a \<le> L") (simp_all add: min_def)

lemma py_slice_bound_diff:
  assumes "i \<le> j"
  shows "py_slice_bound j n - py_slice_bound i n \<le> nat (j - i)"
proof (cases "j < 0")
  case True
  with assms show ?thesis by (simp add: py_slice_bound_def)
next
  case False
  show ?thesis
  proof (cases "i < 0")
    case True
    with False show ?thesis by (simp add: py_slice_bound_def)
  next
    case False
    with \<open>\<not> j < 0\<close> assms show ?thesis
      by (auto simp: py_slice_bound_def min_def nat_diff_distrib)
  qed
qed

lemma py_slice_nonneg:
  assumes "0 \<le> i" and "i \<le> j"
  shows "py_slice xs i j = take (nat (j - i)) (drop (nat i) xs)"
proof -
  let ?L = "length xs"
  have bounds: "py_slice_bound i ?L = min (nat i) ?L" "py_slice_bound j ?L = min (nat j) ?L"
    using assms by (simp_all add: py_slice_bound_def)
  have "nat i \<le> nat j" using assms by simp
  then have "min (nat j) ?L - min (nat i) ?L = min (nat (j - i)) (?L - nat i)"
    using assms by (simp add: min_diff_min nat_diff_distrib)
  moreover have "drop (min (nat i) ?L) xs = drop (nat i) xs"
    by (simp add: min_def)
  ultimately show ?thesis
    by (simp add: py_slice_def Let_def bounds min_def)
qed

lemma py_slice_length_le:
  assumes "i \<le> j"
  shows "length (py_slice xs i j) \<le> nat (j - i)"
proof -
  have "length (py_slice xs i j) \<le> py_slice_bound j (length xs) - py_slice_bound i (length xs)"
    by (simp add: py_slice_def Let_def)
  also have "\<dots> \<le> nat (j - i)"
    using assms by (rule py_slice_bound_diff)
  finally show ?thesis .
qed

lemma py_slice_map [simp]: "py_slice (map f xs) i j = map f (py_slice xs i j)"
  by (simp add: py_slice_def Let_def drop_map take_map)

lemma py_slice_negative:
  assumes "i < 0" and "j < 0" and "i \<le> j" and "- i \<le> int (length xs)"
  shows "py_slice xs i j = take (nat (j - i)) (drop (nat (int (length xs) + i)) xs)"
proof -
  have "py_slice_bound j (length xs) - py_slice_bound i (length xs) = nat (j - i)"
    using assms by (simp add: py_slice_bound_def)
  moreover have "py_slice_bound i (length xs) = nat (int (length xs) + i)"
    using assms by (simp add: py_slice_bound_def)
  ultimately show ?thesis
    by (simp add: py_slice_def Let_def)
qed

lemma py_slice_sublist: "sublist (py_slice xs i j) xs"
proof -
  have "sublist (take n (drop m xs)) xs" for n m
    using sublist_take sublist_drop by (rule sublist_order.order_trans)
  then show ?thesis by (simp add: py_slice_def Let_def)
qed

lemma py_slice_empty_stop:
  assumes "py_slice_bound j (length xs) \<le> py_slice_bound i (length xs)"
  shows "py_slice xs i j = []"
  using assms by (simp add: py_slice_def Let_def)

section \<open>\<^verbatim>\<open>int()\<close> on strings\<close>

text \<open>
  \<^verbatim>\<open>int(s)\<close> for a \<^verbatim>\<open>str\<close>: surrounding whitespace is stripped, an optional sign
  follows, then ASCII digits in which single underscores may separate digits. Characters
  are bytes here: the non-ASCII digits and spaces that Python also accepts are not modelled.
\<close>

definition py_isspace :: "char \<Rightarrow> bool" where
  "py_isspace c \<longleftrightarrow> (let n = of_char c :: nat in (9 \<le> n \<and> n \<le> 13) \<or> (28 \<le> n \<and> n \<le> 32))"

definition py_strip :: "string \<Rightarrow> string" where
  "py_strip s = rev (dropWhile py_isspace (rev (dropWhile py_isspace s)))"

definition is_digit :: "char \<Rightarrow> bool" where
  "is_digit c \<longleftrightarrow> (let n = of_char c :: nat in 48 \<le> n \<and> n \<le> 57)"

definition digit_val :: "char \<Rightarrow> nat" where
  "digit_val c = of_char c - 48"

text \<open>The digit loop: the accumulated value and the rest of the string.\<close>

fun scan_digits :: "nat \<Rightarrow> string \<Rightarrow> nat option" where
  "scan_digits acc [] = Some acc"
| "scan_digits acc (c # cs) =
     (if is_digit c then scan_digits (10 * acc + digit_val c) cs
      else if c = CHR ''_'' then
        (case cs of
          d # ds \<Rightarrow> (if is_digit d then scan_digits (10 * acc + digit_val d) ds else None)
        | [] \<Rightarrow> None)
      else None)"

definition py_parse_nat :: "string \<Rightarrow> nat option" where
  "py_parse_nat s = (case s of c # cs \<Rightarrow> if is_digit c then scan_digits (digit_val c) cs else None
                      | [] \<Rightarrow> None)"

definition py_int_of_str :: "string \<Rightarrow> int option" where
  "py_int_of_str s =
     (let t = py_strip s in
      case t of
        [] \<Rightarrow> None
      | c # cs \<Rightarrow>
          if c = CHR ''-'' then map_option (\<lambda>n. - int n) (py_parse_nat cs)
          else if c = CHR ''+'' then map_option int (py_parse_nat cs)
          else map_option int (py_parse_nat t))"

text \<open>
  \<^verbatim>\<open>request.args.get(key, default, type=int)\<close> (Werkzeug \<^verbatim>\<open>MultiDict.get\<close>): the
  first value bound to the key, converted with \<^verbatim>\<open>int()\<close>; a missing key or a
  conversion that raises \<^verbatim>\<open>ValueError\<close> gives the default.
\<close>

definition args_get_int :: "(string \<times> string) list \<Rightarrow> string \<Rightarrow> int \<Rightarrow> int" where
  "args_get_int args k d =
     (case map_of args k of
        None \<Rightarrow> d
      | Some s \<Rightarrow> (case py_int_of_str s of Some n \<Rightarrow> n | None \<Rightarrow> d))"

lemmas int_parse_simps = args_get_int_def py_int_of_str_def py_strip_def py_isspace_def
  py_parse_nat_def is_digit_def digit_val_def

text \<open>\<^verbatim>\<open>str(n)\<close> for an integer, used for dict keys in \<^verbatim>\<open>jsonify\<close>.\<close>

definition digit_char :: "nat \<Rightarrow> char" where
  "digit_char d = char_of (48 + d)"

fun nat_digits :: "nat \<Rightarrow> string" where
  "nat_digits n = (if n < 10 then [digit_char n] else nat_digits (n div 10) @ [digit_char (n mod 10)])"

declare nat_digits.simps [simp del]

definition py_str_of_int :: "int \<Rightarrow> string" where
  "py_str_of_int i = (if i < 0 then CHR ''-'' # nat_digits (nat (- i)) else nat_digits (nat i))"

section \<open>\<^verbatim>\<open>jsonify\<close>\<close>

text \<open>
  \<^verbatim>\<open>json.dumps\<close> as Flask's default provider calls it: dict keys that are \<^verbatim>\<open>int\<close>,
  \<^verbatim>\<open>bool\<close> or \<^verbatim>\<open>None\<close> are turned into strings, and an object of a user class raises
  \<^verbatim>\<open>TypeError\<close> ("Object of type ... is not JSON serializable"). The provider sorts the
  keys of the output; the order of keys in \<open>JObj\<close> is not modelled.
\<close>

fun json_key :: "pyval \<Rightarrow> py_exc + string" where
  "json_key (PStr s) = Inr s"
| "json_key (PInt n) = Inr (py_str_of_int n)"
| "json_key (PBool b) = Inr (if b then ''true'' else ''false'')"
| "json_key PNone = Inr ''null''"
| "json_key _ = Inl TypeError"

fun to_json :: "pyval \<Rightarrow> py_exc + json"
  and to_json_list :: "pyval list \<Rightarrow> py_exc + json list"
  and to_json_obj :: "(pyval \<times> pyval) list \<Rightarrow> py_exc + (string \<times> json) list" where
  "to_json PNone = Inr JNull"
| "to_json (PBool b) = Inr (JBool b)"
| "to_json (PInt n) = Inr (JInt n)"
| "to_json (PStr s) = Inr (JStr s)"
| "to_json (PList vs) = (case to_json_list vs of Inl e \<Rightarrow> Inl e | Inr js \<Rightarrow> Inr (JArr js))"
| "to_json (PDict kvs) = (case to_json_obj kvs of Inl e \<Rightarrow> Inl e | Inr ps \<Rightarrow> Inr (JObj ps))"
| "to_json (PObj cls attrs) = Inl TypeError"
| "to_json_list [] = Inr []"
| "to_json_list (v # vs) =
     (case to_json v of Inl e \<Rightarrow> Inl e
      | Inr j \<Rightarrow> (case to_json_list vs of Inl e \<Rightarrow> Inl e | Inr js \<Rightarrow> Inr (j # js)))"
| "to_json_obj [] = Inr []"
| "to_json_obj ((k, v) # kvs) =
     (case json_key k of Inl e \<Rightarrow> Inl e
      | Inr s \<Rightarrow> (case to_json v of Inl e \<Rightarrow> Inl e
          | Inr j \<Rightarrow> (case to_json_obj kvs of Inl e \<Rightarrow> Inl e | Inr ps \<Rightarrow> Inr ((s, j) # ps))))"

definition jsonify :: "pyval \<Rightarrow> ('w, json) py" where
  "jsonify v = py_lift (to_json v)"

declare jsonify_def [py_simps]

section \<open>\<^verbatim>\<open>int(str(n)) == n\<close>\<close>

text \<open>
  The digits printed by \<open>nat_digits\<close> are read back by the digit loop of
  \<open>py_parse_nat\<close>; with the sign this gives the round trip
  \<open>py_int_of_str_of_int\<close>.
\<close>

lemma digit_char_props:
  assumes "d < 10"
  shows "is_digit (digit_char d)" and "digit_val (digit_char d) = d"
    and "\<not> py_isspace (digit_char d)"
  using assms by (simp_all add: digit_char_def is_digit_def digit_val_def py_isspace_def)

lemma nat_digits_snoc:
  "nat_digits n = (if n < 10 then [] else nat_digits (n div 10)) @ [digit_char (n mod 10)]"
  by (subst nat_digits.simps) simp

lemma nat_digits_all: "list_all (\<lambda>c. is_digit c \<and> \<not> py_isspace c) (nat_digits n)"
proof (induction n rule: nat_digits.induct)
  case (1 n)
  then show ?case
    by (subst nat_digits_snoc) (simp add: digit_char_props)
qed

lemma nat_digits_Cons: "\<exists>c cs. nat_digits n = c # cs"
proof -
  have "nat_digits n \<noteq> []" by (subst nat_digits_snoc) simp
  then show ?thesis by (simp add: neq_Nil_conv)
qed

lemma scan_digits_foldl:
  "list_all is_digit xs \<Longrightarrow> scan_digits acc xs = Some (foldl (\<lambda>a c. 10 * a + digit_val c) acc xs)"
  by (induction xs arbitrary: acc) auto

lemma foldl_nat_digits: "foldl (\<lambda>a c. 10 * a + digit_val c) 0 (nat_digits n) = n"
proof (induction n rule: nat_digits.induct)
  case (1 n)
  then show ?case
    by (subst nat_digits_snoc) (auto simp: digit_char_props)
qed

lemma py_parse_nat_digits: "py_parse_nat (nat_digits n) = Some n"
proof -
  obtain c cs where cs: "nat_digits n = c # cs" using nat_digits_Cons by blast
  have all: "list_all is_digit (c # cs)"
    using nat_digits_all[of n] by (simp add: cs list_all_iff)
  have "scan_digits (digit_val c) cs = Some (foldl (\<lambda>a c. 10 * a + digit_val c) 0 (c # cs))"
    using all by (simp add: scan_digits_foldl)
  then show ?thesis
    using all foldl_nat_digits[of n] by (simp add: py_parse_nat_def cs)
qed

lemma dropWhile_none: "list_all (\<lambda>c. \<not> P c) xs \<Longrightarrow> dropWhile P xs = xs"
  by (cases xs) auto

lemma py_strip_nospace: "list_all (\<lambda>c. \<not> py_isspace c) xs \<Longrightarrow> py_strip xs = xs"
  by (simp add: py_strip_def dropWhile_none)

lemma py_int_of_str_of_int: "py_int_of_str (py_str_of_int i) = Some i"
proof -
  obtain c cs where cs: "nat_digits (nat \<bar>i\<bar>) = c # cs" using nat_digits_Cons by blast
  have all: "list_all (\<lambda>c. is_digit c \<and> \<not> py_isspace c) (c # cs)"
    using nat_digits_all[of "nat \<bar>i\<bar>"] by (simp only: cs)
  then have sign: "c \<noteq> CHR ''-''" "c \<noteq> CHR ''+''"
    by (auto simp: is_digit_def)
  have nosp: "\<not> py_isspace CHR ''-''" by (simp add: py_isspace_def)
  show ?thesis
  proof (cases "i < 0")
    case True
    then have "py_str_of_int i = CHR ''-'' # c # cs"
      using cs by (simp add: py_str_of_int_def)
    moreover have "py_parse_nat (c # cs) = Some (nat (- i))"
      using py_parse_nat_digits[of "nat \<bar>i\<bar>"] True cs by simp
    ultimately show ?thesis
      using all nosp True by (simp add: py_int_of_str_def py_strip_nospace list_all_iff)
  next
    case False
    then have "py_str_of_int i = c # cs"
      using cs by (simp add: py_str_of_int_def)
    moreover have "py_parse_nat (c # cs) = Some (nat i)"
      using py_parse_nat_digits[of "nat \<bar>i\<bar>"] False cs by simp
    ultimately show ?thesis
      using all sign False by (simp add: py_int_of_str_def py_strip_nospace list_all_iff)
  qed
qed

end
