(* ===== verification/Sql_Like.thy ===== *)
theory Sql_Like
  imports Prelude
begin

text \<open>
  The store's pattern match \<^verbatim>\<open>column ILIKE pattern\<close>, which \<^verbatim>\<open>search_questions\<close>
  delegates to (\<^verbatim>\<open>Question.question.ilike('%' + search_term + '%')\<close>). In a pattern
  \<^verbatim>\<open>%\<close> matches any run of characters, \<^verbatim>\<open>_\<close> any one character, every other
  character itself; the comparison ignores ASCII case. No escape character is modelled: the
  SQL standard has none unless an \<^verbatim>\<open>ESCAPE\<close> clause is given, while PostgreSQL takes
  backslash by default, so on that engine the model covers terms without a backslash. The
  abstract specification of the search is \<open>contains_ci\<close>, case-insensitive substring;
  \<open>ilike_contains_ci\<close> shows that the pattern the handler builds implements it exactly
  when the term has no wildcard character (the search theorems state this through
  \<^verbatim>\<open>search_questions\<close>).
\<close>

definition lower_char :: "char \<Rightarrow> char" where
  "lower_char c = (let n = of_char c :: nat in if 65 \<le> n \<and> n \<le> 90 then char_of (n + 32) else c)"

fun like_match :: "string \<Rightarrow> string \<Rightarrow> bool" where
  "like_match [] s = (s = [])"
| "like_match (p # ps) s =
     (if p = CHR ''%'' then like_match ps s \<or> (case s of [] \<Rightarrow> False | _ # s' \<Rightarrow> like_match (p # ps) s')
      else (case s of [] \<Rightarrow> False | c # s' \<Rightarrow> (p = CHR ''_'' \<or> p = c) \<and> like_match ps s'))"

definition ilike :: "string \<Rightarrow> string \<Rightarrow> bool" where
  "ilike pat s = like_match (map lower_char pat) (map lower_char s)"

definition is_wildcard :: "char \<Rightarrow> bool" where
  "is_wildcard c \<longleftrightarrow> c = CHR ''%'' \<or> c = CHR ''_''"

text \<open>The specification: the term occurs in the text, ignoring case.\<close>

definition contains_ci :: "string \<Rightarrow> string \<Rightarrow> bool" where
  "contains_ci t s \<longleftrightarrow> sublist (map lower_char t) (map lower_char s)"

section \<open>Matching\<close>

text \<open>The characteristic equations, one per kind of pattern character.\<close>

lemma like_match_pct_Nil: "like_match (CHR ''%'' # ps) [] \<longleftrightarrow> like_match ps []"
  by simp

lemma like_match_pct_Cons:
  "like_match (CHR ''%'' # ps) (c # s) \<longleftrightarrow> like_match ps (c # s) \<or> like_match (CHR ''%'' # ps) s"
  by simp

lemma like_match_char_Nil: "p \<noteq> CHR ''%'' \<Longrightarrow> \<not> like_match (p # ps) []"
  by simp

lemma like_match_char_Cons:
  "p \<noteq> CHR ''%'' \<Longrightarrow> like_match (p # ps) (c # s) \<longleftrightarrow> (p = CHR ''_'' \<or> p = c) \<and> like_match ps s"
  by simp

declare like_match.simps(2) [simp del]

lemmas like_match_eqs [simp] =
  like_match_pct_Nil like_match_pct_Cons like_match_char_Nil like_match_char_Cons

lemma like_match_percent:
  "like_match (CHR ''%'' # ps) s \<longleftrightarrow> (\<exists>s2. suffix s2 s \<and> like_match ps s2)"
proof (induction s)
  case Nil
  then show ?case by auto
next
  case (Cons c s)
  have "like_match (CHR ''%'' # ps) (c # s) \<longleftrightarrow> like_match ps (c # s) \<or> like_match (CHR ''%'' # ps) s"
    by simp
  also have "\<dots> \<longleftrightarrow> (\<exists>s2. suffix s2 (c # s) \<and> like_match ps s2)"
    using Cons.IH by (auto simp: suffix_Cons)
  finally show ?case .
qed

lemma like_match_percent_end [simp]: "like_match ''%'' s"
  by (auto simp: like_match_percent)

lemma like_match_literal:
  assumes "\<not> list_ex is_wildcard t"
  shows "like_match (t @ ps) s \<longleftrightarrow> (\<exists>s2. s = t @ s2 \<and> like_match ps s2)"
  using assms
proof (induction t arbitrary: s)
  case Nil
  then show ?case by simp
next
  case (Cons p t)
  from Cons.prems have "\<not> is_wildcard p" and t: "\<not> list_ex is_wildcard t"
    by auto
  then have p: "p \<noteq> CHR ''%''" "p \<noteq> CHR ''_''"
    by (simp_all add: is_wildcard_def)
  show ?case
  proof (cases s)
    case Nil
    with p show ?thesis by simp
  next
    case (Cons c s')
    with p Cons.IH[OF t, of s'] show ?thesis by auto
  qed
qed

lemma like_match_contains:
  assumes "\<not> list_ex is_wildcard t"
  shows "like_match (CHR ''%'' # t @ ''%'') s \<longleftrightarrow> sublist t s"
proof -
  have "like_match (CHR ''%'' # t @ ''%'') s \<longleftrightarrow> (\<exists>s2. suffix s2 s \<and> (\<exists>s3. s2 = t @ s3))"
    by (simp add: like_match_percent like_match_literal[OF assms])
  also have "\<dots> \<longleftrightarrow> (\<exists>a b. s = a @ t @ b)"
    by (auto simp: suffix_iff_split)
  finally show ?thesis by (simp add: sublist_iff_split)
qed

section \<open>Case folding\<close>

lemma of_char_lower_char:
  "of_char (lower_char c) = (let n = of_char c :: nat in if 65 \<le> n \<and> n \<le> 90 then n + 32 else n)"
  by (simp add: lower_char_def Let_def)

lemma lower_char_wildcard [simp]: "is_wildcard (lower_char c) \<longleftrightarrow> is_wildcard c"
proof -
  have eq: "c = d \<longleftrightarrow> (of_char c :: nat) = of_char d" for c d :: char
    by (metis char_of_char)
  show ?thesis
    unfolding is_wildcard_def eq of_char_lower_char Let_def by auto
qed

lemma lower_char_percent [simp]: "lower_char CHR ''%'' = CHR ''%''"
  by (simp add: lower_char_def)

lemma list_ex_lower [simp]: "list_ex is_wildcard (map lower_char t) \<longleftrightarrow> list_ex is_wildcard t"
  by (induction t) auto

lemma ilike_contains_ci:
  assumes "\<not> list_ex is_wildcard t"
  shows "ilike (''%'' @ t @ ''%'') s \<longleftrightarrow> contains_ci t s"
proof -
  have "\<not> list_ex is_wildcard (map lower_char t)" using assms by simp
  then show ?thesis
    by (simp add: ilike_def contains_ci_def like_match_contains[symmetric])
qed

text \<open>With \<^verbatim>\<open>_\<close> as the whole term the pattern is \<^verbatim>\<open>%_%\<close>: any non-empty text.\<close>

lemma ilike_underscore: "ilike ''%_%'' s \<longleftrightarrow> s \<noteq> []"
proof -
  have one: "like_match ''_%'' s2 \<longleftrightarrow> s2 \<noteq> []" for s2
    by (cases s2) auto
  have any: "like_match ''%_%'' s2 \<longleftrightarrow> s2 \<noteq> []" for s2
  proof -
    have "like_match ''%_%'' s2 \<longleftrightarrow> (\<exists>s3. suffix s3 s2 \<and> s3 \<noteq> [])"
      by (simp add: like_match_percent one)
    also have "\<dots> \<longleftrightarrow> s2 \<noteq> []"
      by (auto simp: suffix_iff_split)
    finally show ?thesis .
  qed
  have "map lower_char ''%_%'' = ''%_%''"
    by (simp add: lower_char_def)
  then show ?thesis
    by (simp add: ilike_def any)
qed

end
