(* ===== verification/Models.thy ===== *)
theory Models
  imports Py_Runtime Sql_Like
begin

text \<open>
  The data layer. \<open>question\<close> and \<open>category\<close> are the rows of the two tables; the
  \<open>store\<close> holds both tables and the id sequence of the question table. The classes
  \<^verbatim>\<open>Question\<close> and \<^verbatim>\<open>Category\<close> live in \<^verbatim>\<open>starter.backend.models\<close>, which is not
  part of the sources: their queries, \<^verbatim>\<open>insert()\<close> and \<^verbatim>\<open>deletes()\<close> are modelled from
  the specification (a row is inserted with a fresh id and committed; a delete removes the
  row and commits). \<open>convert_questions_to_dict\<close> is modelled from the source.

  A handler runs on a \<open>world\<close>: the store together with the log of the calls that change
  it or that the handler makes on the module's own \<^verbatim>\<open>db.session\<close>. That session belongs
  to the second \<^verbatim>\<open>SQLAlchemy()\<close> instance created on line 9, which \<^verbatim>\<open>setup_db\<close> never
  binds to the app: it has no pending work, so its \<^verbatim>\<open>commit\<close>, \<^verbatim>\<open>rollback\<close> and
  \<^verbatim>\<open>close\<close> are logged and leave the store unchanged.
\<close>

section \<open>Rows\<close>

record question =
  q_id :: int
  q_question :: string
  q_answer :: string
  q_category :: int
  q_difficulty :: int

record category =
  c_id :: int
  c_type :: string

text \<open>A row as a mapped instance: what \<^verbatim>\<open>jsonify\<close> and subscription see.\<close>

definition question_obj :: "question \<Rightarrow> pyval" where
  "question_obj q = PObj ''Question''
     [(''id'', PInt (q_id q)), (''question'', PStr (q_question q)), (''answer'', PStr (q_answer q)),
      (''category'', PInt (q_category q)), (''difficulty'', PInt (q_difficulty q))]"

section \<open>\<^verbatim>\<open>convert_questions_to_dict\<close>\<close>

definition question_dict :: "question \<Rightarrow> pyval" where
  "question_dict row = PDict
     [(PStr ''id'', PInt (q_id row)), (PStr ''question'', PStr (q_question row)),
      (PStr ''answer'', PStr (q_answer row)), (PStr ''category'', PInt (q_category row)),
      (PStr ''difficulty'', PInt (q_difficulty row))]"

text \<open>The \<^verbatim>\<open>for row in query: questions_list.append(...)\<close> loop.\<close>

fun convert_loop :: "pyval list \<Rightarrow> question list \<Rightarrow> pyval list" where
  "convert_loop questions_list [] = questions_list"
| "convert_loop questions_list (row # rows) = convert_loop (questions_list @ [question_dict row]) rows"

definition convert_questions_to_dict :: "question list \<Rightarrow> pyval list" where
  "convert_questions_to_dict rows = convert_loop [] rows"

lemma convert_loop_map: "convert_loop acc rows = acc @ map question_dict rows"
  by (induction rows arbitrary: acc) auto

lemma convert_questions_to_dict_map [simp]:
  "convert_questions_to_dict rows = map question_dict rows"
  by (simp add: convert_questions_to_dict_def convert_loop_map)

text \<open>The JSON a converted row serialises to.\<close>

definition question_json :: "question \<Rightarrow> json" where
  "question_json row = JObj
     [(''id'', JInt (q_id row)), (''question'', JStr (q_question row)),
      (''answer'', JStr (q_answer row)), (''category'', JInt (q_category row)),
      (''difficulty'', JInt (q_difficulty row))]"

lemma to_json_question_dict [simp]: "to_json (question_dict row) = Inr (question_json row)"
  by (simp add: question_dict_def question_json_def)

lemma to_json_list_question_dicts [simp]:
  "to_json_list (map question_dict rows) = Inr (map question_json rows)"
  by (induction rows) auto

lemma to_json_question_obj [simp]: "to_json (question_obj q) = Inl TypeError"
  by (simp add: question_obj_def)

section \<open>The store and the world\<close>

record store =
  st_questions :: "question list"
  st_categories :: "category list"
  st_next_qid :: int

abbreviation qids :: "store \<Rightarrow> int set" where
  "qids s \<equiv> q_id ` set (st_questions s)"

datatype db_call = InsertQ int | DeleteQ int | Commit | Rollback | Close

record world =
  w_store :: store
  w_log :: "db_call list"

definition log_call :: "db_call \<Rightarrow> world \<Rightarrow> world" where
  "log_call c w = w\<lparr>w_log := w_log w @ [c]\<rparr>"

lemma w_store_log_call [simp]: "w_store (log_call c w) = w_store w"
  by (simp add: log_call_def)

lemma w_log_log_call [simp]: "w_log (log_call c w) = w_log w @ [c]"
  by (simp add: log_call_def)

section \<open>Queries\<close>

text \<open>
  \<^verbatim>\<open>Question.query.all()\<close> and \<^verbatim>\<open>Category.query.all()\<close> return the rows in the
  table's own order; \<^verbatim>\<open>Question.query.get(i)\<close> the row with that primary key.
\<close>

definition query_questions :: "(world, question list) py" where
  "query_questions = (\<lambda>w. (Inr (st_questions (w_store w)), w))"

definition query_categories :: "(world, category list) py" where
  "query_categories = (\<lambda>w. (Inr (st_categories (w_store w)), w))"

definition query_get :: "int \<Rightarrow> (world, question option) py" where
  "query_get i = (\<lambda>w. (Inr (find (\<lambda>q. q_id q = i) (st_questions (w_store w))), w))"

text \<open>
  Comparing the integer column \<^verbatim>\<open>category\<close> with a bound parameter taken from the
  request: an integer compares, \<^verbatim>\<open>None\<close> becomes \<^verbatim>\<open>IS NULL\<close> (no row has a null
  category), any other value makes the statement fail in the store.
\<close>

fun sql_int_eq :: "pyval \<Rightarrow> py_exc + (int \<Rightarrow> bool)" where
  "sql_int_eq (PInt n) = Inr (\<lambda>c. c = n)"
| "sql_int_eq PNone = Inr (\<lambda>c. False)"
| "sql_int_eq _ = Inl StoreError"

text \<open>The list bound to \<^verbatim>\<open>Question.id.in_(...)\<close>: a list of integers.\<close>

fun sql_int_list :: "pyval \<Rightarrow> py_exc + int list" where
  "sql_int_list (PList vs) =
     (if list_all (\<lambda>v. case v of PInt _ \<Rightarrow> True | _ \<Rightarrow> False) vs
      then Inr (map (\<lambda>v. case v of PInt n \<Rightarrow> n | _ \<Rightarrow> 0) vs) else Inl StoreError)"
| "sql_int_list _ = Inl StoreError"

text \<open>\<^verbatim>\<open>Question.query.filter_by(category=v)\<close>, executed.\<close>

definition query_by_category :: "pyval \<Rightarrow> (world, question list) py" where
  "query_by_category v = (\<lambda>w.
     (case sql_int_eq v of
        Inl e \<Rightarrow> Inl e
      | Inr p \<Rightarrow> Inr (filter (\<lambda>q. p (q_category q)) (st_questions (w_store w))), w))"

text \<open>\<^verbatim>\<open>Question.query.filter(Question.question.ilike(pattern)).all()\<close>.\<close>

definition query_ilike :: "pyval \<Rightarrow> (world, question list) py" where
  "query_ilike pattern = (\<lambda>w.
     (case pattern of
        PStr p \<Rightarrow> Inr (filter (\<lambda>q. ilike p (q_question q)) (st_questions (w_store w)))
      | _ \<Rightarrow> Inl StoreError, w))"

text \<open>
  The two queries of the quiz, each ending in \<^verbatim>\<open>.first()\<close>:
  \<^verbatim>\<open>Question.query.filter(~Question.id.in_(previous)).first()\<close> and the same with
  \<^verbatim>\<open>.filter(Question.category == category)\<close> before it.
\<close>

definition query_first_not_in :: "pyval \<Rightarrow> (world, question option) py" where
  "query_first_not_in previous = (\<lambda>w.
     (case sql_int_list previous of
        Inl e \<Rightarrow> Inl e
      | Inr ids \<Rightarrow> Inr (find (\<lambda>q. q_id q \<notin> set ids) (st_questions (w_store w))), w))"

definition query_first_in_category_not_in :: "pyval \<Rightarrow> pyval \<Rightarrow> (world, question option) py" where
  "query_first_in_category_not_in category previous = (\<lambda>w.
     (case sql_int_eq category of
        Inl e \<Rightarrow> Inl e
      | Inr p \<Rightarrow>
          (case sql_int_list previous of
             Inl e \<Rightarrow> Inl e
           | Inr ids \<Rightarrow> Inr (find (\<lambda>q. p (q_category q) \<and> q_id q \<notin> set ids) (st_questions (w_store w)))),
      w))"

section \<open>Updates\<close>

definition store_delete :: "int \<Rightarrow> store \<Rightarrow> store" where
  "store_delete i s = s\<lparr>st_questions := filter (\<lambda>q. q_id q \<noteq> i) (st_questions s)\<rparr>"

definition store_insert :: "string \<Rightarrow> string \<Rightarrow> int \<Rightarrow> int \<Rightarrow> store \<Rightarrow> question \<times> store" where
  "store_insert qu an ca di s =
     (let q = \<lparr>q_id = st_next_qid s, q_question = qu, q_answer = an, q_category = ca,
               q_difficulty = di\<rparr>
      in (q, s\<lparr>st_questions := st_questions s @ [q], st_next_qid := st_next_qid s + 1\<rparr>))"

text \<open>\<^verbatim>\<open>question.deletes()\<close>: delete the row and commit.\<close>

definition question_deletes :: "question \<Rightarrow> (world, unit) py" where
  "question_deletes q = (\<lambda>w.
     (Inr (), log_call (DeleteQ (q_id q)) (w\<lparr>w_store := store_delete (q_id q) (w_store w)\<rparr>)))"

definition as_str :: "pyval \<Rightarrow> string option" where
  "as_str v = (case v of PStr s \<Rightarrow> Some s | _ \<Rightarrow> None)"

definition as_int :: "pyval \<Rightarrow> int option" where
  "as_int v = (case v of PInt n \<Rightarrow> Some n | _ \<Rightarrow> None)"

text \<open>
  \<^verbatim>\<open>Question(data); question.insert()\<close>: a row is built from the four fields of
  \<^verbatim>\<open>data\<close> and inserted with the next id, then committed. A field of the wrong type makes
  the insert fail in the store.
\<close>

definition question_insert :: "pyval \<Rightarrow> (world, question) py" where
  "question_insert data = (\<lambda>w.
     (case (py_getitem data (PStr ''question''), py_getitem data (PStr ''answer''),
            py_getitem data (PStr ''category''), py_getitem data (PStr ''difficulty'')) of
        (Inr qv, Inr av, Inr cv, Inr dv) \<Rightarrow>
          (case (as_str qv, as_str av, as_int cv, as_int dv) of
             (Some qu, Some an, Some ca, Some di) \<Rightarrow>
               (let (q, s') = store_insert qu an ca di (w_store w)
                in (Inr q, log_call (InsertQ (q_id q)) (w\<lparr>w_store := s'\<rparr>)))
           | _ \<Rightarrow> (Inl StoreError, w))
      | _ \<Rightarrow> (Inl StoreError, w)))"

text \<open>The module's own \<^verbatim>\<open>db.session\<close> (see above): logged, no effect on the store.\<close>

definition db_commit :: "(world, unit) py" where
  "db_commit = (\<lambda>w. (Inr (), log_call Commit w))"

definition db_rollback :: "(world, unit) py" where
  "db_rollback = (\<lambda>w. (Inr (), log_call Rollback w))"

definition db_close :: "(world, unit) py" where
  "db_close = (\<lambda>w. (Inr (), log_call Close w))"

text \<open>
  \<^verbatim>\<open>db.sessions.commit()\<close>: the extension object has no attribute \<^verbatim>\<open>sessions\<close>, so
  the attribute lookup raises before any call is made.
\<close>

definition db_sessions_commit :: "(world, unit) py" where
  "db_sessions_commit = py_raise AttributeError"

lemmas store_ops [store_simps] = query_questions_def query_categories_def query_get_def
  query_by_category_def query_ilike_def query_first_not_in_def query_first_in_category_not_in_def
  db_sessions_commit_def question_deletes_def question_insert_def db_commit_def db_rollback_def
  db_close_def

section \<open>Well-formed stores\<close>

text \<open>
  The primary keys of both tables are distinct and every question id is below the next
  value of the id sequence.
\<close>

definition store_wf :: "store \<Rightarrow> bool" where
  "store_wf s \<longleftrightarrow> distinct (map q_id (st_questions s))
     \<and> list_all (\<lambda>q. q_id q < st_next_qid s) (st_questions s)
     \<and> distinct (map c_id (st_categories s))"

lemma store_wf_delete: "store_wf s \<Longrightarrow> store_wf (store_delete i s)"
  by (auto simp: store_wf_def store_delete_def list_all_iff distinct_map_filter)

lemma store_insert_eq:
  assumes "store_insert qu an ca di s = (q, s')"
  shows "q_id q = st_next_qid s" and "st_questions s' = st_questions s @ [q]"
    and "st_next_qid s' = st_next_qid s + 1" and "st_categories s' = st_categories s"
    and "q_question q = qu" and "q_answer q = an" and "q_category q = ca" and "q_difficulty q = di"
  using assms by (auto simp: store_insert_def Let_def)

lemma store_insert_fresh:
  assumes "store_wf s" and "store_insert qu an ca di s = (q, s')"
  shows "q_id q \<notin> qids s"
  using assms(1) store_insert_eq(1)[OF assms(2)] by (auto simp: store_wf_def list_all_iff)

lemma store_wf_insert:
  assumes "store_wf s" and "store_insert qu an ca di s = (q, s')"
  shows "store_wf s'"
proof -
  note eq = store_insert_eq[OF assms(2)]
  have "q_id q \<notin> qids s" using assms by (rule store_insert_fresh)
  then have "distinct (map q_id (st_questions s'))"
    using assms(1) eq(2) by (simp add: store_wf_def)
  moreover have "list_all (\<lambda>x. q_id x < st_next_qid s') (st_questions s')"
    using assms(1) eq(1-3) by (auto simp: store_wf_def list_all_iff)
  ultimately show ?thesis
    using assms(1) eq(4) by (simp add: store_wf_def)
qed

lemma qids_store_delete [simp]: "qids (store_delete i s) = qids s - {i}"
  by (auto simp: store_delete_def)

end
