(* ===== verification/Handlers.thy ===== *)
theory Handlers
  imports Models
begin

text \<open>
  The seven route functions of \<^verbatim>\<open>create_app\<close> in \<^verbatim>\<open>src/backend/flaskr/__init__.py\<close>,
  one definition each, statement by statement: the method guard, the reads of the request,
  the queries, the early \<^verbatim>\<open>abort\<close>s, and the \<^verbatim>\<open>try/except/finally\<close> blocks with what
  each \<^verbatim>\<open>except\<close> and \<^verbatim>\<open>finally\<close> does. A handler maps a world to the JSON body it
  returns or the exception it raises, and to the world it leaves.
\<close>

record request =
  req_method :: string
  req_args :: "(string \<times> string) list"
  req_json :: pyval

definition QUESTIONS_PER_PAGE :: int where
  "QUESTIONS_PER_PAGE = 10"

section \<open>\<^verbatim>\<open>GET /categories\<close>\<close>

text \<open>The loop \<^verbatim>\<open>for row in categories: formatted_categories[row.id] = row.type\<close>.\<close>

definition format_categories :: "category list \<Rightarrow> (pyval \<times> pyval) list" where
  "format_categories categories =
     fold (\<lambda>row formatted. py_dict_set formatted (PInt (c_id row)) (PStr (c_type row))) categories []"

definition get_categories :: "(world, json) py" where
  "get_categories =
     py_bind query_categories (\<lambda>categories.
       let formatted_categories = format_categories categories in
       jsonify (PDict [(PStr ''success'', PBool True),
                       (PStr ''categories'', PDict formatted_categories),
                       (PStr ''total_categories'', PInt (int (length formatted_categories)))]))"

section \<open>\<^verbatim>\<open>GET /questions\<close>\<close>

text \<open>
  \<^verbatim>\<open>Question.query.all()\<close> returns a list, so the test \<^verbatim>\<open>questions is None\<close> on
  line 89 never holds and is left out. The \<^verbatim>\<open>finally\<close> block is
  \<^verbatim>\<open>db.session.close\<close> without a call: it evaluates an attribute and does nothing.
\<close>

definition get_questions :: "request \<Rightarrow> (world, json) py" where
  "get_questions request =
     py_then (py_when (req_method request \<noteq> ''GET'') (abort 405))
     (py_bind (py_try_except (py_return (args_get_int (req_args request) ''page'' 1)) (\<lambda>_. abort 400))
     (\<lambda>page. py_bind query_questions
     (\<lambda>questions. py_bind query_categories
     (\<lambda>categories. py_then (py_when (length categories = 0) (abort 404))
     (py_try
        (let start = (page - 1) * QUESTIONS_PER_PAGE;
             stop = start + QUESTIONS_PER_PAGE;
             formatted_questions = convert_questions_to_dict questions
         in jsonify (PDict [(PStr ''success'', PBool True),
                            (PStr ''questions'', PList (py_slice formatted_questions start stop)),
                            (PStr ''total_questions'', PInt (int (length formatted_questions))),
                            (PStr ''total_categories'', PInt (int (length categories)))]))
        (\<lambda>_. py_then db_rollback (abort 422))
        (py_return ()))))))"

section \<open>\<^verbatim>\<open>DELETE /questionsDelete/<int:delete_id>\<close>\<close>

text \<open>
  The response dict holds the deleted row itself under \<^verbatim>\<open>'deleted'\<close>; it is
  serialised by \<^verbatim>\<open>jsonify\<close> inside the \<^verbatim>\<open>try\<close>, after the commit.
\<close>

definition del_question :: "int \<Rightarrow> request \<Rightarrow> (world, json) py" where
  "del_question delete_id request =
     py_then (py_when (req_method request \<noteq> ''DELETE'') (abort 405))
     (let body = req_json request in
      py_bind (py_lift (py_getitem body (PStr ''currentCategory''))) (\<lambda>currentCategory.
      py_bind (query_get delete_id) (\<lambda>question_to_delete.
      case question_to_delete of
        None \<Rightarrow> abort 404
      | Some q \<Rightarrow>
          py_try
            (py_then (question_deletes q)
             (py_bind (query_by_category currentCategory) (\<lambda>rows.
              let questions = convert_questions_to_dict rows in
              py_then db_commit
              (jsonify (PDict [(PStr ''success'', PBool True),
                               (PStr ''questions'', PList questions),
                               (PStr ''deleted'', question_obj q),
                               (PStr ''total_questions'', PInt (int (length questions)))])))))
            (\<lambda>_. py_then db_rollback (abort 422))
            db_close)))"

section \<open>\<^verbatim>\<open>POST /questionsPost\<close>\<close>

text \<open>
  The first \<^verbatim>\<open>try\<close> builds \<^verbatim>\<open>data\<close> from the body and has no \<^verbatim>\<open>finally\<close>; the
  second inserts the row and returns the row object itself under \<^verbatim>\<open>'question'\<close>.
\<close>

definition post_question :: "request \<Rightarrow> (world, json) py" where
  "post_question request =
     py_then (py_when (req_method request \<noteq> ''POST'') (abort 405))
     (py_bind (py_try_except
        (let body = req_json request in
         py_bind (py_lift (py_getitem body (PStr ''question''))) (\<lambda>qu.
         py_bind (py_lift (py_getitem body (PStr ''answer''))) (\<lambda>an.
         py_bind (py_lift (py_getitem body (PStr ''category''))) (\<lambda>ca.
         py_bind (py_lift (py_getitem body (PStr ''difficulty''))) (\<lambda>di.
         py_return (PDict [(PStr ''question'', qu), (PStr ''answer'', an),
                           (PStr ''category'', ca), (PStr ''difficulty'', di)]))))))
        (\<lambda>_. abort 422))
     (\<lambda>data.
      py_try
        (py_bind (question_insert data) (\<lambda>question.
         jsonify (PDict [(PStr ''success'', PBool True), (PStr ''question'', question_obj question)])))
        (\<lambda>_. py_then db_rollback (abort 422))
        db_close))"

section \<open>\<^verbatim>\<open>POST /questions/search\<close>\<close>

text \<open>
  In both \<^verbatim>\<open>except\<close> blocks \<^verbatim>\<open>db.session.rollback()\<close> follows \<^verbatim>\<open>abort(422)\<close> and
  is never reached. The pattern is built outside any \<^verbatim>\<open>try\<close>, and the empty result is
  rejected before the second \<^verbatim>\<open>try\<close>.
\<close>

definition search_questions :: "request \<Rightarrow> (world, json) py" where
  "search_questions request =
     py_then (py_when (req_method request \<noteq> ''POST'') (abort 405))
     (py_bind (py_try_except
        (let body = req_json request in py_lift (py_getitem body (PStr ''searchTerm'')))
        (\<lambda>_. abort 422))
     (\<lambda>search_term.
      py_bind (py_lift (py_str_concat (PStr ''%'') search_term)) (\<lambda>prefix.
      py_bind (py_lift (py_str_concat prefix (PStr ''%''))) (\<lambda>pattern.
      py_bind (query_ilike pattern) (\<lambda>search_query.
      py_then (py_when (search_query = []) (abort 404))
      (py_try
         (let questions = convert_questions_to_dict search_query in
          jsonify (PDict [(PStr ''success'', PBool True),
                          (PStr ''questions'', PList questions),
                          (PStr ''total_questions'', PInt (int (length questions)))]))
         (\<lambda>_. abort 422)
         db_close))))))"

section \<open>\<^verbatim>\<open>GET /categories/<int:category_id>/questions\<close>\<close>

definition get_questions_by_categories :: "int \<Rightarrow> request \<Rightarrow> (world, json) py" where
  "get_questions_by_categories category_id request =
     py_then (py_when (req_method request \<noteq> ''GET'') (abort 405))
     (py_bind (query_by_category (PInt category_id)) (\<lambda>filtered_by_category_questions.
      py_then (py_when (length filtered_by_category_questions = 0) (abort 404))
      (py_try
         (let questions = convert_questions_to_dict filtered_by_category_questions in
          py_then db_sessions_commit
          (py_bind (py_lift (py_getitem (PList questions) (PInt 0))) (\<lambda>first.
           py_bind (py_lift (py_getitem first (PStr ''category''))) (\<lambda>current_category.
           jsonify (PDict [(PStr ''success'', PBool True),
                           (PStr ''total_questions'', PInt (int (length questions))),
                           (PStr ''current_category'', current_category)])))))
         (\<lambda>_. py_then db_rollback (abort 422))
         db_close)))"

section \<open>\<^verbatim>\<open>POST /quizzes\<close>\<close>

text \<open>
  \<^verbatim>\<open>.first()\<close> gives a row or \<^verbatim>\<open>None\<close>; \<open>first_obj\<close> is that Python value. The
  \<^verbatim>\<open>print\<close> on line 298 only writes to standard output and is left out.
\<close>

definition first_obj :: "question option \<Rightarrow> pyval" where
  "first_obj r = (case r of None \<Rightarrow> PNone | Some q \<Rightarrow> question_obj q)"

text \<open>
  The choice on lines 290--294: the \<^verbatim>\<open>if\<close> tests the id it reads again from
  \<^verbatim>\<open>quiz_category\<close>, the category filter uses the id read on line 288.
\<close>

definition quiz_select :: "pyval \<Rightarrow> pyval \<Rightarrow> pyval \<Rightarrow> (world, question option) py" where
  "quiz_select tested_id quiz_category_id previous_questions =
     (if py_eq_int tested_id 0 then query_first_not_in previous_questions
      else query_first_in_category_not_in quiz_category_id previous_questions)"

definition quizzes_search :: "request \<Rightarrow> (world, json) py" where
  "quizzes_search request =
     py_then (py_when (req_method request \<noteq> ''POST'') (abort 405))
     (let body = req_json request in
      py_bind (py_lift (py_getitem body (PStr ''previous_questions''))) (\<lambda>previous_questions.
      py_bind (py_lift (py_getitem body (PStr ''quiz_category''))) (\<lambda>quiz_category.
      py_bind (py_lift (py_getitem quiz_category (PStr ''id''))) (\<lambda>quiz_category_id.
      py_bind (py_lift (py_getitem quiz_category (PStr ''id''))) (\<lambda>id_again.
      py_bind (quiz_select id_again quiz_category_id previous_questions) (\<lambda>filtered_question.
      let fq = first_obj filtered_question in
      py_try
        (py_bind (py_lift (py_getattr fq ''__dict__'')) (\<lambda>filtered_dict.
         py_bind (py_lift (py_getitem fq (PStr ''question''))) (\<lambda>qu.
         py_bind (py_lift (py_getitem fq (PStr ''answer''))) (\<lambda>an.
         py_bind (py_lift (py_getitem fq (PStr ''id''))) (\<lambda>qid.
         jsonify (PDict [(PStr ''question'',
                          PDict [(PStr ''question'', qu), (PStr ''answer'', an), (PStr ''id'', qid)])]))))))
        (\<lambda>_. py_then db_rollback (abort 422))
        db_close))))))"

section \<open>Example data\<close>

text \<open>The two categories and three questions of the example in the specification.\<close>

definition example_store :: store where
  "example_store = \<lparr>st_questions = [
     \<lparr>q_id = 1, q_question = ''What is H2O?'', q_answer = ''Water'', q_category = 1, q_difficulty = 1\<rparr>,
     \<lparr>q_id = 2, q_question = ''Whose title is King?'', q_answer = ''Lion'', q_category = 1, q_difficulty = 2\<rparr>,
     \<lparr>q_id = 3, q_question = ''Who painted the Mona Lisa?'', q_answer = ''Leonardo'', q_category = 2,
        q_difficulty = 3\<rparr>],
   st_categories = [\<lparr>c_id = 1, c_type = ''Science''\<rparr>, \<lparr>c_id = 2, c_type = ''Art''\<rparr>],
   st_next_qid = 4\<rparr>"

definition example_world :: world where
  "example_world = \<lparr>w_store = example_store, w_log = []\<rparr>"

text \<open>A store of \<open>n\<close> questions numbered from 1, all in category 1.\<close>

definition numbered_store :: "nat \<Rightarrow> store" where
  "numbered_store n = \<lparr>st_questions =
     map (\<lambda>i. \<lparr>q_id = int i, q_question = ''Q'', q_answer = ''A'', q_category = 1, q_difficulty = 1\<rparr>)
       [1..<Suc n],
   st_categories = [\<lparr>c_id = 1, c_type = ''Science''\<rparr>],
   st_next_qid = int n + 1\<rparr>"

lemmas handler_definitions [handler_defs] = get_categories_def get_questions_def del_question_def
  post_question_def search_questions_def get_questions_by_categories_def quizzes_search_def

end
