(* ===== verification/Pagination.thy ===== *)
theory Pagination
  imports Handlers
begin

text \<open>
  Properties of \<^verbatim>\<open>GET /questions\<close> (\<open>get_questions\<close>) and \<^verbatim>\<open>GET /categories\<close>
  (\<open>get_categories\<close>): the page arithmetic of \<^verbatim>\<open>formatted_questions[start:end]\<close>
  for every integer page, the reading of the \<^verbatim>\<open>page\<close> argument, the error paths, and the
  category dictionary.
\<close>

section \<open>The shape of a listing\<close>

text \<open>The body of a successful listing, given the rows shown.\<close>

definition listing_json :: "question list \<Rightarrow> store \<Rightarrow> json" where
  "listing_json rows s = JObj
     [(''success'', JBool True), (''questions'', JArr (map question_json rows)),
      (''total_questions'', JInt (int (length (st_questions s)))),
      (''total_categories'', JInt (int (length (st_categories s))))]"

text \<open>The body of \<^verbatim>\<open>GET /categories\<close> for a table with distinct ids.\<close>

definition categories_json :: "category list \<Rightarrow> json" where
  "categories_json cs = JObj
     [(''success'', JBool True),
      (''categories'', JObj (map (\<lambda>c. (py_str_of_int (c_id c), JStr (c_type c))) cs)),
      (''total_categories'', JInt (int (length cs)))]"

text \<open>
  A request for one page, and the list of questions a listing response shows (empty for an
  error).
\<close>

definition page_request :: "int \<Rightarrow> request" where
  "page_request p = \<lparr>req_method = ''GET'', req_args = [(''page'', py_str_of_int p)], req_json = PNone\<rparr>"

fun listed_questions :: "py_exc + json \<Rightarrow> json list" where
  "listed_questions (Inr (JObj kvs)) = (case map_of kvs ''questions'' of Some (JArr js) \<Rightarrow> js | _ \<Rightarrow> [])"
| "listed_questions _ = []"

lemma get_questions_GET:
  assumes "req_method r = ''GET''" and "st_categories (w_store w) \<noteq> []"
    and "args_get_int (req_args r) ''page'' 1 = page"
  shows "get_questions r w =
           (Inr (listing_json (py_slice (st_questions (w_store w)) ((page - 1) * 10) (page * 10))
                   (w_store w)), w)"
proof -
  have "(page - 1) * 10 + 10 = page * 10" by (simp add: algebra_simps)
  then show ?thesis
    using assms
    by (simp add: get_questions_def py_simps store_simps QUESTIONS_PER_PAGE_def Let_def
        listing_json_def)
qed

lemma page_slice:
  assumes "1 \<le> page"
  shows "py_slice xs ((page - 1) * 10) (page * 10) = take 10 (drop (nat ((page - 1) * 10)) xs)"
proof -
  have "nat (page * 10 - (page - 1) * 10) = 10" by (simp add: algebra_simps)
  then show ?thesis
    using assms by (simp add: py_slice_nonneg)
qed

lemma page_slice_negative:
  assumes "page < 0" and "10 - 10 * page \<le> int (length xs)"
  shows "py_slice xs ((page - 1) * 10) (page * 10) = take 10 (drop (nat (int (length xs) + 10 * page - 10)) xs)"
proof -
  have "nat (page * 10 - (page - 1) * 10) = 10"
    by (simp add: algebra_simps)
  then show ?thesis
    using assms by (simp add: py_slice_negative algebra_simps)
qed

lemma py_dict_set_fresh:
  "k \<notin> fst ` set kvs \<Longrightarrow> py_dict_set kvs k v = kvs @ [(k, v)]"
  by (induction kvs) auto

lemma fold_dict_set_fresh:
  assumes "distinct (map c_id cs)" and "\<forall>c\<in>set cs. PInt (c_id c) \<notin> fst ` set acc"
  shows "fold (\<lambda>row formatted. py_dict_set formatted (PInt (c_id row)) (PStr (c_type row))) cs acc
      = acc @ map (\<lambda>c. (PInt (c_id c), PStr (c_type c))) cs"
  using assms
proof (induction cs arbitrary: acc)
  case (Cons c cs)
  have "\<forall>c'\<in>set cs. PInt (c_id c') \<notin> fst ` set (acc @ [(PInt (c_id c), PStr (c_type c))])"
    using Cons.prems by (auto simp: image_iff)
  then have "fold (\<lambda>row formatted. py_dict_set formatted (PInt (c_id row)) (PStr (c_type row))) cs
      (acc @ [(PInt (c_id c), PStr (c_type c))])
      = (acc @ [(PInt (c_id c), PStr (c_type c))]) @ map (\<lambda>c. (PInt (c_id c), PStr (c_type c))) cs"
    using Cons.prems(1) by (intro Cons.IH) simp_all
  then show ?case using Cons.prems by (simp add: py_dict_set_fresh)
qed simp

lemma format_categories_distinct:
  assumes "distinct (map c_id cs)"
  shows "format_categories cs = map (\<lambda>c. (PInt (c_id c), PStr (c_type c))) cs"
  using fold_dict_set_fresh[OF assms, of "[]"] by (simp add: format_categories_def)

lemma to_json_obj_categories:
  "to_json_obj (map (\<lambda>c. (PInt (c_id c), PStr (c_type c))) cs) =
     Inr (map (\<lambda>c. (py_str_of_int (c_id c), JStr (c_type c))) cs)"
  by (induction cs) auto

lemma get_questions_cases:
  "get_questions r w =
     (if req_method r \<noteq> ''GET'' then (Inl (HTTPAbort 405), w)
      else if st_categories (w_store w) = [] then (Inl (HTTPAbort 404), w)
      else (let page = args_get_int (req_args r) ''page'' 1 in
            (Inr (listing_json (py_slice (st_questions (w_store w)) ((page - 1) * 10) (page * 10))
               (w_store w)), w)))"
  by (simp add: get_questions_GET Let_def)
     (simp add: get_questions_def py_simps store_simps)

lemma page_slices_concat:
  "concat (map (\<lambda>p. py_slice xs ((p - 1) * 10) (p * 10)) [1..int k]) = take (10 * k) xs"
proof (induction k)
  case 0
  then show ?case by simp
next
  case (Suc k)
  let ?f = "\<lambda>p. py_slice xs ((p - 1) * 10) (p * 10)"
  have r: "[1..int (Suc k)] = [1..int k] @ [int k + 1]"
    by (simp add: upto_rec2)
  have last: "?f (int k + 1) = take 10 (drop (10 * k) xs)"
    using page_slice[of "int k + 1" xs] by (simp add: nat_mult_distrib mult.commute)
  have t: "take (10 * Suc k) xs = take (10 * k) xs @ take 10 (drop (10 * k) xs)"
    by (metis add.commute mult_Suc_right take_add)
  have "concat (map ?f [1..int (Suc k)]) = concat (map ?f [1..int k]) @ ?f (int k + 1)"
    by (simp only: r map_append concat_append list.map concat.simps append_Nil2)
  then show ?case
    by (simp only: Suc.IH last t)
qed

lemma listed_listing_json: "listed_questions (Inr (listing_json rows s)) = map question_json rows"
  by (simp add: listing_json_def)

lemma page_request_method: "req_method (page_request p) = ''GET''"
  by (simp add: page_request_def)

lemma args_page_request: "args_get_int (req_args (page_request p)) ''page'' 1 = p"
  by (simp add: page_request_def args_get_int_def py_int_of_str_of_int)

section \<open>Pages\<close>

text \<open>
  C1: For every page \<open>p \<ge> 1\<close> read from the \<^verbatim>\<open>page\<close> argument, \<^verbatim>\<open>GET /questions\<close>
  returns the records at positions \<open>10(p - 1)\<close> to \<open>10p - 1\<close> of the table in its own
  order (so at most ten), the number of questions and of categories, and leaves the store
  and the session untouched.
\<close>

theorem get_questions_pagination:
  assumes "req_method r = ''GET''" and "st_categories (w_store w) \<noteq> []"
    and "args_get_int (req_args r) ''page'' 1 = page" and "1 \<le> page"
  shows "get_questions r w =
           (Inr (listing_json (take 10 (drop (nat ((page - 1) * 10)) (st_questions (w_store w))))
                   (w_store w)), w)"
  by (simp only: get_questions_GET[OF assms(1-3)] page_slice[OF assms(4)])

lemma get_questions_pagination_witness:
  "req_method \<lparr>req_method = ''GET'', req_args = [(''page'', ''1'')], req_json = PNone\<rparr> = ''GET''
   \<and> st_categories (w_store example_world) \<noteq> []
   \<and> args_get_int (req_args \<lparr>req_method = ''GET'', req_args = [(''page'', ''1'')], req_json = PNone\<rparr>)
        ''page'' 1 = 1
   \<and> (1::int) \<le> 1
   \<and> get_questions \<lparr>req_method = ''GET'', req_args = [(''page'', ''1'')], req_json = PNone\<rparr> example_world =
       (Inr (listing_json (take 10 (drop (nat ((1 - 1) * 10)) (st_questions (w_store example_world))))
               (w_store example_world)), example_world)"
proof -
  have h1: "req_method \<lparr>req_method = ''GET'', req_args = [(''page'', ''1'')], req_json = PNone\<rparr> = ''GET''"
    by simp
  have h2: "st_categories (w_store example_world) \<noteq> []"
    by (simp add: example_world_def example_store_def)
  have h3: "args_get_int (req_args \<lparr>req_method = ''GET'', req_args = [(''page'', ''1'')], req_json = PNone\<rparr>)
        ''page'' 1 = 1"
    by (simp add: int_parse_simps)
  show ?thesis
    using h1 h2 h3 get_questions_pagination[OF h1 h2 h3] by simp
qed

text \<open>
  A page past the last one (\<open>10(p - 1) \<ge>\<close> number of questions) returns an empty list
  of questions with \<^verbatim>\<open>success\<close> true, not an error.
\<close>

theorem get_questions_past_end:
  assumes "req_method r = ''GET''" and "st_categories (w_store w) \<noteq> []"
    and "args_get_int (req_args r) ''page'' 1 = page" and "1 \<le> page"
    and "int (length (st_questions (w_store w))) \<le> (page - 1) * 10"
  shows "get_questions r w = (Inr (listing_json [] (w_store w)), w)"
proof -
  have "length (st_questions (w_store w)) \<le> nat ((page - 1) * 10)"
    using assms(5) by linarith
  then have "take 10 (drop (nat ((page - 1) * 10)) (st_questions (w_store w))) = []"
    by simp
  then show ?thesis
    by (simp only: get_questions_GET[OF assms(1-3)] page_slice[OF assms(4)])
qed

text \<open>
  C3: A negative page is not rejected: Python's negative slice indices count from the end,
  so page \<open>p < 0\<close> returns the ten records that end \<open>10|p|\<close> records before the end of
  the table (when the table has at least \<open>10(1 - p)\<close> records).
\<close>

theorem get_questions_negative_page:
  assumes "req_method r = ''GET''" and "st_categories (w_store w) \<noteq> []"
    and "args_get_int (req_args r) ''page'' 1 = page" and "page < 0"
    and "10 - 10 * page \<le> int (length (st_questions (w_store w)))"
  shows "get_questions r w =
           (Inr (listing_json
                   (take 10 (drop (nat (int (length (st_questions (w_store w))) + 10 * page - 10))
                      (st_questions (w_store w)))) (w_store w)), w)"
  by (simp only: get_questions_GET[OF assms(1-3)] page_slice_negative[OF assms(4,5)])

lemma get_questions_negative_page_witness:
  "req_method \<lparr>req_method = ''GET'', req_args = [(''page'', ''-1'')], req_json = PNone\<rparr> = ''GET''
   \<and> st_categories (numbered_store 25) \<noteq> []
   \<and> args_get_int [(''page'', ''-1'')] ''page'' 1 = -1
   \<and> (-1::int) < 0
   \<and> 10 - 10 * (-1) \<le> int (length (st_questions (numbered_store 25)))
   \<and> get_questions \<lparr>req_method = ''GET'', req_args = [(''page'', ''-1'')], req_json = PNone\<rparr>
         \<lparr>w_store = numbered_store 25, w_log = []\<rparr> =
       (Inr (listing_json (take 10 (drop 5 (st_questions (numbered_store 25)))) (numbered_store 25)),
        \<lparr>w_store = numbered_store 25, w_log = []\<rparr>)"
proof -
  let ?r = "\<lparr>req_method = ''GET'', req_args = [(''page'', ''-1'')], req_json = PNone\<rparr>"
  let ?w = "\<lparr>w_store = numbered_store 25, w_log = []\<rparr>"
  have h1: "req_method ?r = ''GET''" by simp
  have h2: "st_categories (w_store ?w) \<noteq> []" by (simp add: numbered_store_def)
  have h3: "args_get_int (req_args ?r) ''page'' 1 = -1" by (simp add: int_parse_simps)
  have h5: "10 - 10 * (-1) \<le> int (length (st_questions (w_store ?w)))"
    by (simp add: numbered_store_def)
  have "nat (int (length (st_questions (w_store ?w))) + 10 * (-1) - 10) = 5"
    by (simp add: numbered_store_def)
  then show ?thesis
    using h1 h2 h3 h5 get_questions_negative_page[OF h1 h2 h3 _ h5] by simp
qed

section \<open>The page argument and the error paths\<close>

text \<open>
  C17: \<^verbatim>\<open>GET /questions\<close> never answers 400 (Bad Request), whatever the request and
  the store: \<^verbatim>\<open>request.args.get('page', 1, type=int)\<close> does not raise on a malformed
  page, so the \<^verbatim>\<open>except: abort(400)\<close> branch is dead.
\<close>

theorem get_questions_never_bad_request:
  "fst (get_questions r w) \<noteq> Inl (HTTPAbort 400)"
  by (simp add: get_questions_cases Let_def)

text \<open>
  C18: A \<^verbatim>\<open>page\<close> argument that \<^verbatim>\<open>int()\<close> cannot parse is answered exactly as
  \<^verbatim>\<open>page=1\<close>.
\<close>

theorem get_questions_bad_page_is_first:
  assumes "py_int_of_str s = None"
  shows "get_questions (r\<lparr>req_args := (''page'', s) # as\<rparr>) w =
         get_questions (r\<lparr>req_args := (''page'', py_str_of_int 1) # as\<rparr>) w"
  using assms by (simp add: get_questions_cases args_get_int_def py_int_of_str_of_int)

lemma get_questions_bad_page_is_first_witness:
  "py_int_of_str ''2a'' = None
   \<and> get_questions \<lparr>req_method = ''GET'', req_args = [(''page'', ''2a'')], req_json = PNone\<rparr> example_world =
     get_questions \<lparr>req_method = ''GET'', req_args = [(''page'', py_str_of_int 1)], req_json = PNone\<rparr> example_world"
proof -
  have h: "py_int_of_str ''2a'' = None" by (simp add: int_parse_simps)
  show ?thesis
    using h get_questions_bad_page_is_first[OF h,
      where r="\<lparr>req_method = ''GET'', req_args = [], req_json = PNone\<rparr>" and as="[]" and w=example_world]
    by simp
qed

text \<open>
  C19: A \<^verbatim>\<open>GET /questions\<close> on a store with no categories answers 404, even when there
  are questions to list; the store and the session are untouched.
\<close>

theorem get_questions_no_categories:
  assumes "req_method r = ''GET''" and "st_categories (w_store w) = []"
  shows "get_questions r w = (Inl (HTTPAbort 404), w)"
  using assms by (simp add: get_questions_cases)

lemma get_questions_no_categories_witness:
  "req_method \<lparr>req_method = ''GET'', req_args = [], req_json = PNone\<rparr> = ''GET''
   \<and> st_categories (w_store \<lparr>w_store = example_store\<lparr>st_categories := []\<rparr>, w_log = []\<rparr>) = []
   \<and> st_questions (w_store \<lparr>w_store = example_store\<lparr>st_categories := []\<rparr>, w_log = []\<rparr>) \<noteq> []
   \<and> get_questions \<lparr>req_method = ''GET'', req_args = [], req_json = PNone\<rparr>
       \<lparr>w_store = example_store\<lparr>st_categories := []\<rparr>, w_log = []\<rparr>
     = (Inl (HTTPAbort 404), \<lparr>w_store = example_store\<lparr>st_categories := []\<rparr>, w_log = []\<rparr>)"
proof -
  let ?w = "\<lparr>w_store = example_store\<lparr>st_categories := []\<rparr>, w_log = []\<rparr>"
  let ?r = "\<lparr>req_method = ''GET'', req_args = [], req_json = PNone\<rparr>"
  have h1: "req_method ?r = ''GET''" by simp
  have h2: "st_categories (w_store ?w) = []" by simp
  have "st_questions (w_store ?w) \<noteq> []" by (simp add: example_store_def)
  then show ?thesis using h1 h2 get_questions_no_categories[OF h1 h2] by simp
qed

section \<open>Categories\<close>

text \<open>
  C20: On a well-formed store, \<^verbatim>\<open>GET /categories\<close> returns every category in table order
  as the entry \<open>str(id) : type\<close>, and \<^verbatim>\<open>total_categories\<close> is the number of
  categories.
\<close>

theorem get_categories_dictionary:
  assumes "store_wf (w_store w)"
  shows "get_categories w = (Inr (categories_json (st_categories (w_store w))), w)"
proof -
  have "distinct (map c_id (st_categories (w_store w)))"
    using assms by (simp add: store_wf_def)
  then show ?thesis
    by (simp add: get_categories_def py_simps store_simps format_categories_distinct
        to_json_obj_categories categories_json_def)
qed

lemma get_categories_dictionary_witness:
  "store_wf (w_store example_world)
   \<and> get_categories example_world =
       (Inr (JObj [(''success'', JBool True), (''categories'', JObj [(''1'', JStr ''Science''), (''2'', JStr ''Art'')]),
                   (''total_categories'', JInt 2)]), example_world)"
proof -
  have h: "store_wf (w_store example_world)"
    by (simp add: store_wf_def example_world_def example_store_def)
  have "py_str_of_int 1 = ''1''" "py_str_of_int 2 = ''2''"
    by code_simp+
  then show ?thesis
    using h get_categories_dictionary[OF h]
    by (simp add: categories_json_def example_world_def example_store_def)
qed

section \<open>The pages as a whole\<close>

text \<open>
  C28: Every successful \<^verbatim>\<open>GET /questions\<close>, whatever its page (zero, negative or past
  the end), lists a contiguous run of at most \<^verbatim>\<open>QUESTIONS_PER_PAGE\<close> questions of the
  table in table order, and changes neither the store nor the session.
\<close>

theorem get_questions_page_shape:
  assumes "get_questions r w = (Inr j, w')"
  shows "w' = w \<and> (\<exists>rows. j = listing_json rows (w_store w) \<and> length rows \<le> 10
           \<and> sublist rows (st_questions (w_store w)))"
proof -
  let ?p = "args_get_int (req_args r) ''page'' 1"
  let ?rows = "py_slice (st_questions (w_store w)) ((?p - 1) * 10) (?p * 10)"
  have ok: "req_method r = ''GET''" "st_categories (w_store w) \<noteq> []"
    using assms by (simp_all add: get_questions_cases split: if_splits)
  then have "get_questions r w = (Inr (listing_json ?rows (w_store w)), w)"
    by (simp add: get_questions_cases Let_def)
  then have res: "j = listing_json ?rows (w_store w)" "w' = w"
    using assms by simp_all
  have "length ?rows \<le> 10"
    using py_slice_length_le[of "(?p - 1) * 10" "?p * 10" "st_questions (w_store w)"]
    by (simp add: algebra_simps)
  then show ?thesis
    using res py_slice_sublist by blast
qed

lemma get_questions_page_shape_witness:
  "get_questions (page_request 2) \<lparr>w_store = numbered_store 25, w_log = []\<rparr> =
     (Inr (listing_json (py_slice (st_questions (numbered_store 25)) 10 20) (numbered_store 25)),
      \<lparr>w_store = numbered_store 25, w_log = []\<rparr>)
   \<and> (\<exists>rows. listing_json (py_slice (st_questions (numbered_store 25)) 10 20) (numbered_store 25) =
        listing_json rows (numbered_store 25) \<and> length rows \<le> 10 \<and> sublist rows (st_questions (numbered_store 25)))"
proof -
  let ?w = "\<lparr>w_store = numbered_store 25, w_log = []\<rparr>"
  have c: "st_categories (numbered_store 25) \<noteq> []" by (simp add: numbered_store_def)
  have h: "get_questions (page_request 2) ?w =
     (Inr (listing_json (py_slice (st_questions (numbered_store 25)) 10 20) (numbered_store 25)), ?w)"
    using get_questions_cases[of "page_request 2" ?w] args_page_request[of 2] c
    by (simp add: page_request_method Let_def)
  show ?thesis using h get_questions_page_shape[OF h] by simp
qed

text \<open>
  C29: The pages partition the table: the questions listed by pages \<open>1, ..., k\<close>, one
  after the other, are exactly the first \<open>10k\<close> questions of the table, each once and in
  order.
\<close>

theorem get_questions_pages_partition:
  assumes "st_categories (w_store w) \<noteq> []"
  shows "concat (map (\<lambda>p. listed_questions (fst (get_questions (page_request p) w))) [1..int k]) =
         map question_json (take (10 * k) (st_questions (w_store w)))"
proof -
  let ?f = "\<lambda>p. py_slice (st_questions (w_store w)) ((p - 1) * 10) (p * 10)"
  have eq: "\<And>p. listed_questions (fst (get_questions (page_request p) w)) = map question_json (?f p)"
    using assms by (simp add: get_questions_cases page_request_method args_page_request
        listed_listing_json Let_def)
  have "concat (map (\<lambda>p. listed_questions (fst (get_questions (page_request p) w))) [1..int k]) =
        concat (map (\<lambda>p. map question_json (?f p)) [1..int k])"
    by (simp only: eq)
  also have "\<dots> = map question_json (concat (map ?f [1..int k]))"
    by (simp only: map_concat map_map comp_def)
  also have "\<dots> = map question_json (take (10 * k) (st_questions (w_store w)))"
    by (simp only: page_slices_concat)
  finally show ?thesis .
qed

lemma get_questions_pages_partition_witness:
  "st_categories (w_store \<lparr>w_store = numbered_store 25, w_log = []\<rparr>) \<noteq> []
   \<and> concat (map (\<lambda>p. listed_questions (fst (get_questions (page_request p)
         \<lparr>w_store = numbered_store 25, w_log = []\<rparr>))) [1..3]) =
     map question_json (take 30 (st_questions (numbered_store 25)))"
proof -
  have h: "st_categories (w_store \<lparr>w_store = numbered_store 25, w_log = []\<rparr>) \<noteq> []"
    by (simp add: numbered_store_def)
  show ?thesis
    using h get_questions_pages_partition[OF h, of 3] by simp
qed

end
