(* ===== verification/Search.thy ===== *)
theory Search
  imports Handlers
begin

text \<open>
  Properties of \<^verbatim>\<open>POST /questions/search\<close> (\<open>search_questions\<close>): the result is the
  list of questions the \<^verbatim>\<open>ILIKE\<close> pattern matches, which is the case-insensitive substring
  search of the specification for terms without wildcards; a term with \<^verbatim>\<open>_\<close> or
  \<^verbatim>\<open>%\<close> matches more; the error paths.
\<close>

definition search_json :: "question list \<Rightarrow> json" where
  "search_json rows = JObj
     [(''success'', JBool True), (''questions'', JArr (map question_json rows)),
      (''total_questions'', JInt (int (length rows)))]"

lemma search_questions_term:
  assumes "req_method r = ''POST''"
    and "py_getitem (req_json r) (PStr ''searchTerm'') = Inr (PStr t)"
  shows "search_questions r w =
           (let rows = filter (\<lambda>q. ilike (''%'' @ t @ ''%'') (q_question q)) (st_questions (w_store w))
            in if rows = [] then (Inl (HTTPAbort 404), w) else (Inr (search_json rows), log_call Close w))"
  using assms
  by (simp add: search_questions_def py_simps store_simps Let_def search_json_def)

lemma filter_ilike_contains:
  assumes "\<not> list_ex is_wildcard t"
  shows "filter (\<lambda>q. ilike (''%'' @ t @ ''%'') (q_question q)) qs =
         filter (\<lambda>q. contains_ci t (q_question q)) qs"
  using assms by (simp add: ilike_contains_ci[simplified])

definition search_request :: "pyval \<Rightarrow> request" where
  "search_request term = \<lparr>req_method = ''POST'', req_args = [], req_json = PDict [(PStr ''searchTerm'', term)]\<rparr>"

lemma search_request_simps [simp]:
  "req_method (search_request v) = ''POST''"
  "py_getitem (req_json (search_request v)) (PStr ''searchTerm'') = Inr v"
  by (simp_all add: search_request_def)

section \<open>Results\<close>

text \<open>
  C4: For a search term without wildcard characters that some question contains (ignoring
  case), the search returns exactly the questions whose text contains the term, in the
  table's order, with their number; the store is unchanged and the module session is
  closed.
\<close>

theorem search_questions_matches:
  assumes "req_method r = ''POST''"
    and "py_getitem (req_json r) (PStr ''searchTerm'') = Inr (PStr t)"
    and "\<not> list_ex is_wildcard t"
    and "filter (\<lambda>q. contains_ci t (q_question q)) (st_questions (w_store w)) = rows"
    and "rows \<noteq> []"
  shows "search_questions r w = (Inr (search_json rows), log_call Close w)"
proof -
  have eq: "filter (\<lambda>q. ilike (''%'' @ t @ ''%'') (q_question q)) (st_questions (w_store w)) = rows"
    by (simp only: filter_ilike_contains[OF assms(3)] assms(4))
  show ?thesis
    by (simp only: search_questions_term[OF assms(1,2)] Let_def eq if_not_P[OF assms(5)])
qed

lemma search_questions_matches_witness:
  "req_method (search_request (PStr ''TITLE'')) = ''POST''
   \<and> py_getitem (req_json (search_request (PStr ''TITLE''))) (PStr ''searchTerm'') = Inr (PStr ''TITLE'')
   \<and> \<not> list_ex is_wildcard ''TITLE''
   \<and> filter (\<lambda>q. contains_ci ''TITLE'' (q_question q)) (st_questions (w_store example_world)) =
       [st_questions example_store ! 1]
   \<and> [st_questions example_store ! 1] \<noteq> []
   \<and> search_questions (search_request (PStr ''TITLE'')) example_world =
       (Inr (search_json [st_questions example_store ! 1]), log_call Close example_world)"
proof -
  have h3: "\<not> list_ex is_wildcard ''TITLE''" by (simp add: is_wildcard_def)
  have h4: "filter (\<lambda>q. contains_ci ''TITLE'' (q_question q)) (st_questions (w_store example_world)) =
       [st_questions example_store ! 1]"
    by code_simp
  show ?thesis
    using h3 h4 search_questions_matches[OF search_request_simps h3 h4] by simp
qed

text \<open>
  C5: When no question contains the term (without wildcards), the search aborts with 404
  before its \<^verbatim>\<open>try\<close> block, leaving the store and the session untouched.
\<close>

theorem search_questions_no_match:
  assumes "req_method r = ''POST''"
    and "py_getitem (req_json r) (PStr ''searchTerm'') = Inr (PStr t)"
    and "\<not> list_ex is_wildcard t"
    and "filter (\<lambda>q. contains_ci t (q_question q)) (st_questions (w_store w)) = []"
  shows "search_questions r w = (Inl (HTTPAbort 404), w)"
proof -
  have eq: "filter (\<lambda>q. ilike (''%'' @ t @ ''%'') (q_question q)) (st_questions (w_store w)) = []"
    by (simp only: filter_ilike_contains[OF assms(3)] assms(4))
  show ?thesis
    by (simp only: search_questions_term[OF assms(1,2)] Let_def eq) simp
qed

lemma search_questions_no_match_witness:
  "req_method (search_request (PStr ''zebra'')) = ''POST''
   \<and> py_getitem (req_json (search_request (PStr ''zebra''))) (PStr ''searchTerm'') = Inr (PStr ''zebra'')
   \<and> \<not> list_ex is_wildcard ''zebra''
   \<and> filter (\<lambda>q. contains_ci ''zebra'' (q_question q)) (st_questions (w_store example_world)) = []
   \<and> search_questions (search_request (PStr ''zebra'')) example_world = (Inl (HTTPAbort 404), example_world)"
proof -
  have h3: "\<not> list_ex is_wildcard ''zebra''" by (simp add: is_wildcard_def)
  have h4: "filter (\<lambda>q. contains_ci ''zebra'' (q_question q)) (st_questions (w_store example_world)) = []"
    by code_simp
  show ?thesis
    using h3 h4 search_questions_no_match[OF search_request_simps h3 h4] by simp
qed

text \<open>
  C6: The term is not escaped before it is put into the pattern: the term \<^verbatim>\<open>_\<close>
  returns every question with a non-empty text, although none need contain the character
  \<^verbatim>\<open>_\<close>.
\<close>

theorem search_questions_underscore:
  assumes "req_method r = ''POST''"
    and "py_getitem (req_json r) (PStr ''searchTerm'') = Inr (PStr ''_'')"
    and "filter (\<lambda>q. q_question q \<noteq> []) (st_questions (w_store w)) = rows"
    and "rows \<noteq> []"
  shows "search_questions r w = (Inr (search_json rows), log_call Close w)"
  using search_questions_term[OF assms(1,2)] assms(3,4)
  by (simp add: Let_def ilike_underscore[simplified])

lemma search_questions_underscore_witness:
  "req_method (search_request (PStr ''_'')) = ''POST''
   \<and> py_getitem (req_json (search_request (PStr ''_''))) (PStr ''searchTerm'') = Inr (PStr ''_'')
   \<and> filter (\<lambda>q. q_question q \<noteq> []) (st_questions (w_store example_world)) = st_questions example_store
   \<and> st_questions example_store \<noteq> []
   \<and> filter (\<lambda>q. contains_ci ''_'' (q_question q)) (st_questions example_store) = []
   \<and> search_questions (search_request (PStr ''_'')) example_world =
       (Inr (search_json (st_questions example_store)), log_call Close example_world)"
proof -
  have h3: "filter (\<lambda>q. q_question q \<noteq> []) (st_questions (w_store example_world)) = st_questions example_store"
    by (simp add: example_world_def example_store_def)
  have h4: "st_questions example_store \<noteq> []"
    by (simp add: example_store_def)
  have "filter (\<lambda>q. contains_ci ''_'' (q_question q)) (st_questions example_store) = []"
    by code_simp
  then show ?thesis
    using h3 h4 search_questions_underscore[OF search_request_simps h3 h4] by simp
qed

section \<open>Errors\<close>

text \<open>
  C7: A body without \<^verbatim>\<open>searchTerm\<close> (or a body that is not a dict) is answered with
  422 before any query runs, and nothing changes.
\<close>

theorem search_questions_missing_term:
  assumes "req_method r = ''POST''"
    and "py_getitem (req_json r) (PStr ''searchTerm'') = Inl e"
  shows "search_questions r w = (Inl (HTTPAbort 422), w)"
  using assms by (simp add: search_questions_def py_simps)

lemma search_questions_missing_term_witness:
  "req_method \<lparr>req_method = ''POST'', req_args = [], req_json = PDict []\<rparr> = ''POST''
   \<and> py_getitem (req_json \<lparr>req_method = ''POST'', req_args = [], req_json = PDict []\<rparr>) (PStr ''searchTerm'') = Inl KeyError
   \<and> search_questions \<lparr>req_method = ''POST'', req_args = [], req_json = PDict []\<rparr> example_world =
       (Inl (HTTPAbort 422), example_world)"
proof -
  let ?r = "\<lparr>req_method = ''POST'', req_args = [], req_json = PDict []\<rparr>"
  have h1: "req_method ?r = ''POST''" by simp
  have h2: "py_getitem (req_json ?r) (PStr ''searchTerm'') = Inl KeyError" by simp
  show ?thesis using h1 h2 search_questions_missing_term[OF h1 h2] by simp
qed

end
