(* ===== verification/Quiz.thy ===== *)
theory Quiz
  imports Handlers
begin

text \<open>
  Properties of \<^verbatim>\<open>POST /quizzes\<close> (\<open>quizzes_search\<close>, with its query choice
  \<open>quiz_select\<close>) and of \<^verbatim>\<open>GET /categories/<id>/questions\<close>
  (\<open>get_questions_by_categories\<close>): what the queries select, and what the handlers
  answer once the selection is made; and a whole quiz round (\<open>quiz_play\<close>), the client
  drawing again with every id drawn so far.
\<close>

section \<open>A quiz round\<close>

text \<open>
  The client's quiz round: draw with the ids drawn so far as \<^verbatim>\<open>previous_questions\<close>,
  at most \<open>n\<close> times, until the selection comes back empty. The ids a category offers
  (category 0 offers every question).
\<close>

fun quiz_play :: "nat \<Rightarrow> int \<Rightarrow> int list \<Rightarrow> world \<Rightarrow> int list" where
  "quiz_play 0 c prev w = []"
| "quiz_play (Suc n) c prev w =
     (case fst (quiz_select (PInt c) (PInt c) (PList (map PInt prev)) w) of
        Inr (Some q) \<Rightarrow> q_id q # quiz_play n c (prev @ [q_id q]) w
      | _ \<Rightarrow> [])"

definition eligible_ids :: "int \<Rightarrow> store \<Rightarrow> int set" where
  "eligible_ids c s = set (map q_id (filter (\<lambda>q. c = 0 \<or> q_category q = c) (st_questions s)))"

section \<open>Selection\<close>

lemma quiz_select_int:
  assumes "sql_int_list prev = Inr ids"
  shows "quiz_select (PInt n) (PInt n) prev w =
           (Inr (find (\<lambda>q. (n = 0 \<or> q_category q = n) \<and> q_id q \<notin> set ids) (st_questions (w_store w))), w)"
  using assms by (simp add: quiz_select_def store_simps)

text \<open>
  C12: The question the quiz draw selects is a question of the table whose id is not among
  the previous questions, and, unless the category id equals 0 ("All"), it belongs to the
  requested category.
\<close>

theorem quiz_select_unseen:
  assumes "sql_int_list prev = Inr ids"
    and "quiz_select v v prev w = (Inr (Some q), w')"
  shows "q_id q \<notin> set ids \<and> q \<in> set (st_questions (w_store w)) \<and> (py_eq_int v 0 \<or> v = PInt (q_category q))"
proof (cases "py_eq_int v 0")
  case True
  with assms have "find (\<lambda>q. q_id q \<notin> set ids) (st_questions (w_store w)) = Some q"
    by (auto simp: quiz_select_def store_simps)
  with True show ?thesis
    by (auto dest: find_Some_set)
next
  case False
  then consider n where "v = PInt n" | "v = PNone" | "sql_int_eq v = Inl StoreError"
    by (cases v) auto
  then show ?thesis
  proof cases
    case 1
    with False assms have "find (\<lambda>q. q_category q = n \<and> q_id q \<notin> set ids) (st_questions (w_store w)) = Some q"
      by (auto simp: quiz_select_def store_simps)
    with 1 show ?thesis
      by (auto dest: find_Some_set)
  next
    case 2
    with False assms show ?thesis
      by (auto simp: quiz_select_def store_simps dest: find_Some_set)
  next
    case 3
    with False assms show ?thesis
      by (simp add: quiz_select_def store_simps)
  qed
qed

lemma quiz_select_unseen_witness:
  "sql_int_list (PList [PInt 1]) = Inr [1]
   \<and> quiz_select (PInt 1) (PInt 1) (PList [PInt 1]) example_world =
       (Inr (Some (st_questions example_store ! 1)), example_world)
   \<and> q_id (st_questions example_store ! 1) \<notin> set [1]
   \<and> st_questions example_store ! 1 \<in> set (st_questions (w_store example_world))
   \<and> (py_eq_int (PInt 1) 0 \<or> PInt 1 = PInt (q_category (st_questions example_store ! 1)))"
proof -
  have h1: "sql_int_list (PList [PInt 1]) = Inr [1]" by simp
  have h2: "quiz_select (PInt 1) (PInt 1) (PList [PInt 1]) example_world =
       (Inr (Some (st_questions example_store ! 1)), example_world)"
    by (simp add: quiz_select_def store_simps example_world_def example_store_def)
  show ?thesis using h1 h2 quiz_select_unseen[OF h1 h2] by simp
qed

text \<open>
  C13: The draw comes back empty only when the previous questions cover every question of
  the requested category (every question, for category id 0): the selection never misses an
  unseen question.
\<close>

theorem quiz_select_exhausted:
  assumes "sql_int_list prev = Inr ids"
  shows "fst (quiz_select (PInt n) (PInt n) prev w) = Inr None \<longleftrightarrow>
           (\<forall>q\<in>set (st_questions (w_store w)). (n = 0 \<or> q_category q = n) \<longrightarrow> q_id q \<in> set ids)"
  using assms by (auto simp: quiz_select_int find_None_all)

lemma quiz_select_exhausted_witness:
  "sql_int_list (PList [PInt 1, PInt 2]) = Inr [1, 2]
   \<and> (fst (quiz_select (PInt 1) (PInt 1) (PList [PInt 1, PInt 2]) example_world) = Inr None \<longleftrightarrow>
        (\<forall>q\<in>set (st_questions (w_store example_world)). (1 = (0::int) \<or> q_category q = 1) \<longrightarrow> q_id q \<in> set [1, 2]))
   \<and> fst (quiz_select (PInt 1) (PInt 1) (PList [PInt 1, PInt 2]) example_world) = Inr None"
proof -
  have h: "sql_int_list (PList [PInt 1, PInt 2]) = Inr [1, 2]" by simp
  have "fst (quiz_select (PInt 1) (PInt 1) (PList [PInt 1, PInt 2]) example_world) = Inr None"
    by (simp add: quiz_select_def store_simps example_world_def example_store_def)
  then show ?thesis using h quiz_select_exhausted[OF h, of 1 example_world] by simp
qed

section \<open>Answers\<close>

lemma quizzes_search_selected:
  assumes "req_method r = ''POST''"
    and "py_getitem (req_json r) (PStr ''previous_questions'') = Inr prev"
    and "py_getitem (req_json r) (PStr ''quiz_category'') = Inr qc"
    and "py_getitem qc (PStr ''id'') = Inr v"
    and "quiz_select v v prev w = (Inr sel, w)"
  shows "quizzes_search r w = (Inl (HTTPAbort 422), w\<lparr>w_log := w_log w @ [Rollback, Close]\<rparr>)"
  using assms
  by (cases sel) (simp_all add: quizzes_search_def py_simps store_simps first_obj_def question_obj_def
      Let_def log_call_def)

definition quiz_request :: "pyval \<Rightarrow> pyval \<Rightarrow> request" where
  "quiz_request prev cid = \<lparr>req_method = ''POST'', req_args = [],
     req_json = PDict [(PStr ''previous_questions'', prev), (PStr ''quiz_category'', PDict [(PStr ''id'', cid)])]\<rparr>"

lemma quiz_request_simps [simp]:
  "req_method (quiz_request prev cid) = ''POST''"
  "py_getitem (req_json (quiz_request prev cid)) (PStr ''previous_questions'') = Inr prev"
  "py_getitem (req_json (quiz_request prev cid)) (PStr ''quiz_category'') = Inr (PDict [(PStr ''id'', cid)])"
  "py_getitem (PDict [(PStr ''id'', cid)]) (PStr ''id'') = Inr cid"
  by (simp_all add: quiz_request_def)

text \<open>
  C14: Every well-formed quiz request (a list of integer ids and a category with an
  integer id) is answered with 422, whether or not a question was selected: the selected row
  is read by subscription (\<^verbatim>\<open>filtered_question['question']\<close>), which a row object does
  not support, and an empty selection has no \<^verbatim>\<open>__dict__\<close>. The store is unchanged; the
  session is rolled back and closed.
\<close>

theorem quizzes_search_unprocessable:
  assumes "req_method r = ''POST''"
    and "py_getitem (req_json r) (PStr ''previous_questions'') = Inr prev"
    and "sql_int_list prev = Inr ids"
    and "py_getitem (req_json r) (PStr ''quiz_category'') = Inr qc"
    and "py_getitem qc (PStr ''id'') = Inr (PInt n)"
  shows "quizzes_search r w = (Inl (HTTPAbort 422), w\<lparr>w_log := w_log w @ [Rollback, Close]\<rparr>)"
  using quizzes_search_selected[OF assms(1,2,4,5) quiz_select_int[OF assms(3)]] .

lemma quizzes_search_unprocessable_witness:
  "req_method (quiz_request (PList [PInt 1]) (PInt 1)) = ''POST''
   \<and> py_getitem (req_json (quiz_request (PList [PInt 1]) (PInt 1))) (PStr ''previous_questions'') = Inr (PList [PInt 1])
   \<and> sql_int_list (PList [PInt 1]) = Inr [1]
   \<and> py_getitem (req_json (quiz_request (PList [PInt 1]) (PInt 1))) (PStr ''quiz_category'') =
       Inr (PDict [(PStr ''id'', PInt 1)])
   \<and> py_getitem (PDict [(PStr ''id'', PInt 1)]) (PStr ''id'') = Inr (PInt 1)
   \<and> fst (quiz_select (PInt 1) (PInt 1) (PList [PInt 1]) example_world) = Inr (Some (st_questions example_store ! 1))
   \<and> quizzes_search (quiz_request (PList [PInt 1]) (PInt 1)) example_world =
       (Inl (HTTPAbort 422), example_world\<lparr>w_log := w_log example_world @ [Rollback, Close]\<rparr>)"
proof -
  have h3: "sql_int_list (PList [PInt 1]) = Inr [1]" by simp
  have "fst (quiz_select (PInt 1) (PInt 1) (PList [PInt 1]) example_world) = Inr (Some (st_questions example_store ! 1))"
    by (simp add: quiz_select_def store_simps example_world_def example_store_def)
  then show ?thesis
    using h3 quizzes_search_unprocessable[OF quiz_request_simps(1,2) h3 quiz_request_simps(3,4)] by simp
qed

section \<open>Questions of a category\<close>

text \<open>
  C15: \<^verbatim>\<open>GET /categories/<id>/questions\<close> answers 404 when no question has the category
  and 422 otherwise: after formatting the rows it calls \<^verbatim>\<open>db.sessions.commit()\<close>, an
  attribute that does not exist. It never returns the category's questions; the store is
  unchanged.
\<close>

theorem get_questions_by_categories_outcome:
  assumes "req_method r = ''GET''"
  shows "get_questions_by_categories c r w =
           (if filter (\<lambda>q. q_category q = c) (st_questions (w_store w)) = [] then (Inl (HTTPAbort 404), w)
            else (Inl (HTTPAbort 422), w\<lparr>w_log := w_log w @ [Rollback, Close]\<rparr>))"
  using assms
  by (simp add: get_questions_by_categories_def py_simps store_simps Let_def log_call_def)

lemma get_questions_by_categories_outcome_witness:
  "req_method \<lparr>req_method = ''GET'', req_args = [], req_json = PNone\<rparr> = ''GET''
   \<and> get_questions_by_categories 1 \<lparr>req_method = ''GET'', req_args = [], req_json = PNone\<rparr> example_world =
       (Inl (HTTPAbort 422), example_world\<lparr>w_log := w_log example_world @ [Rollback, Close]\<rparr>)
   \<and> get_questions_by_categories 5 \<lparr>req_method = ''GET'', req_args = [], req_json = PNone\<rparr> example_world =
       (Inl (HTTPAbort 404), example_world)"
proof -
  let ?r = "\<lparr>req_method = ''GET'', req_args = [], req_json = PNone\<rparr>"
  have h: "req_method ?r = ''GET''" by simp
  show ?thesis
    using h get_questions_by_categories_outcome[OF h, of 1 example_world]
      get_questions_by_categories_outcome[OF h, of 5 example_world]
    by (simp add: example_world_def example_store_def)
qed

section \<open>A whole round\<close>

lemma sql_int_list_ints [simp]: "sql_int_list (PList (map PInt xs)) = Inr xs"
  by (simp add: list_all_iff comp_def)

lemma quiz_play_Suc:
  "quiz_play (Suc n) c prev w =
     (case find (\<lambda>q. (c = 0 \<or> q_category q = c) \<and> q_id q \<notin> set prev) (st_questions (w_store w)) of
        Some q \<Rightarrow> q_id q # quiz_play n c (prev @ [q_id q]) w
      | None \<Rightarrow> [])"
  by (simp add: quiz_select_int[OF sql_int_list_ints])

lemma quiz_play_gen:
  assumes "card (eligible_ids c (w_store w) - set prev) \<le> n"
  shows "distinct (quiz_play n c prev w) \<and> set (quiz_play n c prev w) = eligible_ids c (w_store w) - set prev"
  using assms
proof (induction n arbitrary: prev)
  case 0
  have "finite (eligible_ids c (w_store w))" by (simp add: eligible_ids_def)
  then show ?case using 0 by simp
next
  case (Suc n)
  let ?E = "eligible_ids c (w_store w)"
  let ?P = "\<lambda>q. (c = 0 \<or> q_category q = c) \<and> q_id q \<notin> set prev"
  show ?case
  proof (cases "find ?P (st_questions (w_store w))")
    case None
    then have "?E - set prev = {}"
      by (auto simp: eligible_ids_def find_None_iff)
    then show ?thesis unfolding quiz_play_Suc using None by simp
  next
    case (Some q)
    then have q: "q_id q \<in> ?E - set prev"
      by (auto simp: eligible_ids_def dest: find_Some_set)
    have fin: "finite (?E - set prev)" by (simp add: eligible_ids_def)
    have rest: "?E - set (prev @ [q_id q]) = (?E - set prev) - {q_id q}" by auto
    have "card (?E - set (prev @ [q_id q])) \<le> n"
      using Suc.prems q fin by (simp only: rest card_Diff_singleton)
    then have IH: "distinct (quiz_play n c (prev @ [q_id q]) w)
        \<and> set (quiz_play n c (prev @ [q_id q]) w) = (?E - set prev) - {q_id q}"
      using Suc.IH rest by simp
    then show ?thesis
      unfolding quiz_play_Suc using Some q by auto
  qed
qed

text \<open>
  C31: The selection of lines 290--294, drawn repeatedly with every id drawn so far as
  \<^verbatim>\<open>previous_questions\<close>, plays every question of the category exactly once: with as
  many draws as the table has rows, the ids drawn are distinct and are exactly the ids of
  the category's questions (so the round ends with the empty selection).
\<close>

theorem quiz_session_plays_all:
  assumes "length (st_questions (w_store w)) \<le> n"
  shows "distinct (quiz_play n c [] w) \<and> set (quiz_play n c [] w) = eligible_ids c (w_store w)"
proof -
  have "card (eligible_ids c (w_store w)) \<le> length (st_questions (w_store w))"
    unfolding eligible_ids_def
    by (metis card_length length_filter_le length_map order_trans)
  then show ?thesis
    using quiz_play_gen[of c w "[]" n] assms by simp
qed

lemma quiz_session_plays_all_witness:
  "length (st_questions (w_store example_world)) \<le> 3
   \<and> distinct (quiz_play 3 1 [] example_world) \<and> set (quiz_play 3 1 [] example_world) = {1, 2}"
proof -
  have h: "length (st_questions (w_store example_world)) \<le> 3"
    by (simp add: example_world_def example_store_def)
  have "eligible_ids 1 (w_store example_world) = {1, 2}"
    by (simp add: eligible_ids_def example_world_def example_store_def)
  then show ?thesis using h quiz_session_plays_all[OF h, of 1] by simp
qed

end
