(* ===== verification/Mutations.thy ===== *)
theory Mutations
  imports Handlers
begin

text \<open>
  Properties of the two handlers that change the store, \<^verbatim>\<open>DELETE /questionsDelete/<id>\<close>
  (\<open>del_question\<close>) and \<^verbatim>\<open>POST /questionsPost\<close> (\<open>post_question\<close>): the outcome and
  the world left on every branch, including the order of the calls made on the store and on
  the module session.
\<close>

section \<open>Deletion\<close>

lemma find_id_Some:
  assumes "find (\<lambda>q. q_id q = i) qs = Some q"
  shows "q_id q = i"
  using find_Some_set[OF assms] by simp

lemma find_id_None:
  "find (\<lambda>q. q_id q = i) qs = None \<longleftrightarrow> i \<notin> q_id ` set qs"
  by (auto simp: find_None_all)

text \<open>The world after the deletion branch: the row is gone and the calls are logged.\<close>

definition deleted_world :: "int \<Rightarrow> db_call list \<Rightarrow> world \<Rightarrow> world" where
  "deleted_world i calls w =
     w\<lparr>w_store := store_delete i (w_store w), w_log := w_log w @ DeleteQ i # calls\<rparr>"

lemma del_question_found:
  assumes "req_method r = ''DELETE''"
    and "py_getitem (req_json r) (PStr ''currentCategory'') = Inr cc"
    and "find (\<lambda>q. q_id q = i) (st_questions (w_store w)) = Some q"
  shows "del_question i r w =
           (Inl (HTTPAbort 422),
            deleted_world i (case sql_int_eq cc of Inl _ \<Rightarrow> [Rollback, Close]
                                                 | Inr _ \<Rightarrow> [Commit, Rollback, Close]) w)"
proof -
  have qi: "q_id q = i" using assms(3) by (rule find_id_Some)
  show ?thesis
    using assms qi
    by (simp add: del_question_def py_simps store_simps Let_def deleted_world_def log_call_def
        split: sum.splits)
qed

lemma del_question_not_found:
  assumes "req_method r = ''DELETE''"
    and "py_getitem (req_json r) (PStr ''currentCategory'') = Inr cc"
    and "i \<notin> qids (w_store w)"
  shows "del_question i r w = (Inl (HTTPAbort 404), w)"
  using assms by (simp add: del_question_def py_simps store_simps find_id_None[symmetric])

lemma del_question_no_category:
  assumes "req_method r = ''DELETE''"
    and "py_getitem (req_json r) (PStr ''currentCategory'') = Inl e"
  shows "del_question i r w = (Inl e, w)"
  using assms by (simp add: del_question_def py_simps)

section \<open>Creation\<close>

definition inserted_world :: "string \<Rightarrow> string \<Rightarrow> int \<Rightarrow> int \<Rightarrow> world \<Rightarrow> world" where
  "inserted_world qu an ca di w =
     w\<lparr>w_store := snd (store_insert qu an ca di (w_store w)),
       w_log := w_log w @ [InsertQ (st_next_qid (w_store w)), Rollback, Close]\<rparr>"

lemma post_question_typed:
  assumes "req_method r = ''POST''"
    and "py_getitem (req_json r) (PStr ''question'') = Inr (PStr qu)"
    and "py_getitem (req_json r) (PStr ''answer'') = Inr (PStr an)"
    and "py_getitem (req_json r) (PStr ''category'') = Inr (PInt ca)"
    and "py_getitem (req_json r) (PStr ''difficulty'') = Inr (PInt di)"
  shows "post_question r w = (Inl (HTTPAbort 422), inserted_world qu an ca di w)"
  using assms
  by (simp add: post_question_def py_simps store_simps Let_def as_str_def as_int_def
      inserted_world_def store_insert_def log_call_def)

lemma post_question_missing:
  assumes "req_method r = ''POST''"
    and "k \<in> set [''question'', ''answer'', ''category'', ''difficulty'']"
    and "py_getitem (req_json r) (PStr k) = Inl e"
  shows "post_question r w = (Inl (HTTPAbort 422), w)"
  using assms by (auto simp: post_question_def py_simps Let_def split: sum.splits)

section \<open>Claims\<close>

definition delete_request :: "pyval \<Rightarrow> request" where
  "delete_request cc = \<lparr>req_method = ''DELETE'', req_args = [], req_json = PDict [(PStr ''currentCategory'', cc)]\<rparr>"

lemma delete_request_simps [simp]:
  "req_method (delete_request cc) = ''DELETE''"
  "py_getitem (req_json (delete_request cc)) (PStr ''currentCategory'') = Inr cc"
  by (simp_all add: delete_request_def)

text \<open>
  C8: Deleting an id that no question has answers 404 and changes nothing: no row is
  removed and no session call is made.
\<close>

theorem del_question_missing_id:
  assumes "req_method r = ''DELETE''"
    and "py_getitem (req_json r) (PStr ''currentCategory'') = Inr cc"
    and "i \<notin> qids (w_store w)"
  shows "del_question i r w = (Inl (HTTPAbort 404), w)"
  using assms by (rule del_question_not_found)

lemma del_question_missing_id_witness:
  "req_method (delete_request (PInt 1)) = ''DELETE''
   \<and> py_getitem (req_json (delete_request (PInt 1))) (PStr ''currentCategory'') = Inr (PInt 1)
   \<and> 7 \<notin> qids (w_store example_world)
   \<and> del_question 7 (delete_request (PInt 1)) example_world = (Inl (HTTPAbort 404), example_world)"
proof -
  have h3: "7 \<notin> qids (w_store example_world)"
    by (simp add: example_world_def example_store_def)
  show ?thesis
    using h3 del_question_missing_id[OF delete_request_simps h3] by simp
qed

text \<open>
  C9: Deleting an existing question removes exactly that row and commits it, yet the
  response is 422: the response dict holds the row object, which \<^verbatim>\<open>jsonify\<close> cannot
  serialise, and the \<^verbatim>\<open>except\<close> block's rollback comes after the commit. The calls
  happen in the order delete, commit, rollback, close.
\<close>

theorem del_question_existing:
  assumes "req_method r = ''DELETE''"
    and "py_getitem (req_json r) (PStr ''currentCategory'') = Inr (PInt c)"
    and "i \<in> qids (w_store w)"
  shows "del_question i r w =
           (Inl (HTTPAbort 422),
            w\<lparr>w_store := (w_store w)\<lparr>st_questions := filter (\<lambda>q. q_id q \<noteq> i) (st_questions (w_store w))\<rparr>,
              w_log := w_log w @ [DeleteQ i, Commit, Rollback, Close]\<rparr>)"
proof -
  obtain q where "find (\<lambda>q. q_id q = i) (st_questions (w_store w)) = Some q"
    using assms(3) find_id_None[of i "st_questions (w_store w)"] by (cases "find (\<lambda>q. q_id q = i) (st_questions (w_store w))") auto
  from del_question_found[OF assms(1,2) this] show ?thesis
    by (simp add: deleted_world_def store_delete_def)
qed

lemma del_question_existing_witness:
  "req_method (delete_request (PInt 1)) = ''DELETE''
   \<and> py_getitem (req_json (delete_request (PInt 1))) (PStr ''currentCategory'') = Inr (PInt 1)
   \<and> 2 \<in> qids (w_store example_world)
   \<and> del_question 2 (delete_request (PInt 1)) example_world =
       (Inl (HTTPAbort 422),
        example_world\<lparr>w_store := (w_store example_world)\<lparr>st_questions :=
            filter (\<lambda>q. q_id q \<noteq> 2) (st_questions (w_store example_world))\<rparr>,
          w_log := w_log example_world @ [DeleteQ 2, Commit, Rollback, Close]\<rparr>)"
proof -
  have h3: "2 \<in> qids (w_store example_world)"
    by (simp add: example_world_def example_store_def)
  show ?thesis
    using h3 del_question_existing[OF delete_request_simps h3] by simp
qed

text \<open>
  C10: A creation request whose body lacks one of \<^verbatim>\<open>question\<close>, \<^verbatim>\<open>answer\<close>,
  \<^verbatim>\<open>category\<close>, \<^verbatim>\<open>difficulty\<close> is answered with 422 and changes nothing.
\<close>

theorem post_question_missing_field:
  assumes "req_method r = ''POST''"
    and "k \<in> set [''question'', ''answer'', ''category'', ''difficulty'']"
    and "py_getitem (req_json r) (PStr k) = Inl e"
  shows "post_question r w = (Inl (HTTPAbort 422), w)"
  using assms by (rule post_question_missing)

lemma post_question_missing_field_witness:
  "req_method \<lparr>req_method = ''POST'', req_args = [], req_json = PDict [(PStr ''question'', PStr ''Q'')]\<rparr> = ''POST''
   \<and> ''answer'' \<in> set [''question'', ''answer'', ''category'', ''difficulty'']
   \<and> py_getitem (req_json \<lparr>req_method = ''POST'', req_args = [], req_json = PDict [(PStr ''question'', PStr ''Q'')]\<rparr>)
        (PStr ''answer'') = Inl KeyError
   \<and> post_question \<lparr>req_method = ''POST'', req_args = [], req_json = PDict [(PStr ''question'', PStr ''Q'')]\<rparr>
        example_world = (Inl (HTTPAbort 422), example_world)"
proof -
  let ?r = "\<lparr>req_method = ''POST'', req_args = [], req_json = PDict [(PStr ''question'', PStr ''Q'')]\<rparr>"
  have h1: "req_method ?r = ''POST''" by simp
  have h2: "''answer'' \<in> set [''question'', ''answer'', ''category'', ''difficulty'']" by simp
  have h3: "py_getitem (req_json ?r) (PStr ''answer'') = Inl KeyError" by simp
  show ?thesis using h1 h2 h3 post_question_missing_field[OF h1 h2 h3] by simp
qed

definition post_request :: "string \<Rightarrow> string \<Rightarrow> int \<Rightarrow> int \<Rightarrow> request" where
  "post_request qu an ca di = \<lparr>req_method = ''POST'', req_args = [],
     req_json = PDict [(PStr ''question'', PStr qu), (PStr ''answer'', PStr an),
                       (PStr ''category'', PInt ca), (PStr ''difficulty'', PInt di)]\<rparr>"

lemma post_request_simps [simp]:
  "req_method (post_request qu an ca di) = ''POST''"
  "py_getitem (req_json (post_request qu an ca di)) (PStr ''question'') = Inr (PStr qu)"
  "py_getitem (req_json (post_request qu an ca di)) (PStr ''answer'') = Inr (PStr an)"
  "py_getitem (req_json (post_request qu an ca di)) (PStr ''category'') = Inr (PInt ca)"
  "py_getitem (req_json (post_request qu an ca di)) (PStr ''difficulty'') = Inr (PInt di)"
  by (simp_all add: post_request_def)

text \<open>
  C11: A creation request with all four fields of the right types appends the new question,
  with the next id of the sequence, at the end of the table (so a later listing shows it on
  its last page) and commits it; the response is nevertheless 422, because the row object is
  put in the response dict and cannot be serialised.
\<close>

theorem post_question_creates:
  assumes "req_method r = ''POST''"
    and "py_getitem (req_json r) (PStr ''question'') = Inr (PStr qu)"
    and "py_getitem (req_json r) (PStr ''answer'') = Inr (PStr an)"
    and "py_getitem (req_json r) (PStr ''category'') = Inr (PInt ca)"
    and "py_getitem (req_json r) (PStr ''difficulty'') = Inr (PInt di)"
  shows "post_question r w =
           (Inl (HTTPAbort 422),
            w\<lparr>w_store := (w_store w)\<lparr>
                 st_questions := st_questions (w_store w) @
                   [\<lparr>q_id = st_next_qid (w_store w), q_question = qu, q_answer = an,
                      q_category = ca, q_difficulty = di\<rparr>],
                 st_next_qid := st_next_qid (w_store w) + 1\<rparr>,
              w_log := w_log w @ [InsertQ (st_next_qid (w_store w)), Rollback, Close]\<rparr>)"
  using post_question_typed[OF assms] by (simp add: inserted_world_def store_insert_def Let_def)

lemma post_question_creates_witness:
  "req_method (post_request ''Q'' ''A'' 2 1) = ''POST''
   \<and> py_getitem (req_json (post_request ''Q'' ''A'' 2 1)) (PStr ''question'') = Inr (PStr ''Q'')
   \<and> py_getitem (req_json (post_request ''Q'' ''A'' 2 1)) (PStr ''answer'') = Inr (PStr ''A'')
   \<and> py_getitem (req_json (post_request ''Q'' ''A'' 2 1)) (PStr ''category'') = Inr (PInt 2)
   \<and> py_getitem (req_json (post_request ''Q'' ''A'' 2 1)) (PStr ''difficulty'') = Inr (PInt 1)
   \<and> post_question (post_request ''Q'' ''A'' 2 1) example_world =
       (Inl (HTTPAbort 422),
        example_world\<lparr>w_store := (w_store example_world)\<lparr>
             st_questions := st_questions (w_store example_world) @
               [\<lparr>q_id = st_next_qid (w_store example_world), q_question = ''Q'', q_answer = ''A'',
                  q_category = 2, q_difficulty = 1\<rparr>],
             st_next_qid := st_next_qid (w_store example_world) + 1\<rparr>,
          w_log := w_log example_world @ [InsertQ (st_next_qid (w_store example_world)), Rollback, Close]\<rparr>)"
  using post_question_creates[OF post_request_simps] by simp

end
