(* ===== verification/Requests.thy ===== *)
theory Requests
  imports Mutations Quiz
begin

text \<open>
  The route functions as one interface. \<open>endpoint\<close> names one call of a route function
  with its arguments and \<open>serve\<close> runs it. The question table read as a lookup table
  from id to row (\<open>question_map\<close>) is the abstract state; \<open>map_op e\<close> is what a request
  to endpoint \<open>e\<close> may do to it: nothing, for every endpoint; remove the requested id, for a
  deletion; add one fresh id whose row carries the fields of the body, for a creation. The
  refinement theorem says that \<open>serve\<close> implements \<open>map_op\<close>, request by request. The frame
  rules (\<open>keeps_store\<close>) show which route functions leave the store alone, and four of
  them are shown to end in an exception on every input.
\<close>

datatype endpoint =
    GetCategories
  | GetQuestions request
  | DeleteQuestion int request
  | PostQuestion request
  | SearchQuestions request
  | QuestionsByCategory int request
  | Quizzes request

fun serve :: "endpoint \<Rightarrow> (world, json) py" where
  "serve GetCategories = get_categories"
| "serve (GetQuestions r) = get_questions r"
| "serve (DeleteQuestion i r) = del_question i r"
| "serve (PostQuestion r) = post_question r"
| "serve (SearchQuestions r) = search_questions r"
| "serve (QuestionsByCategory c r) = get_questions_by_categories c r"
| "serve (Quizzes r) = quizzes_search r"

definition question_map :: "store \<Rightarrow> int \<rightharpoonup> question" where
  "question_map s = map_of (map (\<lambda>q. (q_id q, q)) (st_questions s))"

text \<open>The row a creation request describes: its four fields, of the types the code needs.\<close>

definition post_fields :: "request \<Rightarrow> question \<Rightarrow> bool" where
  "post_fields r q \<longleftrightarrow>
     py_getitem (req_json r) (PStr ''question'') = Inr (PStr (q_question q))
   \<and> py_getitem (req_json r) (PStr ''answer'') = Inr (PStr (q_answer q))
   \<and> py_getitem (req_json r) (PStr ''category'') = Inr (PInt (q_category q))
   \<and> py_getitem (req_json r) (PStr ''difficulty'') = Inr (PInt (q_difficulty q))"

inductive map_op :: "endpoint \<Rightarrow> (int \<rightharpoonup> question) \<Rightarrow> (int \<rightharpoonup> question) \<Rightarrow> bool" where
  unchanged: "map_op e m m"
| remove: "map_op (DeleteQuestion i r) m (m(i := None))"
| add: "k \<notin> dom m \<Longrightarrow> q_id q = k \<Longrightarrow> post_fields r q \<Longrightarrow> map_op (PostQuestion r) m (m(k \<mapsto> q))"

section \<open>Statements that leave the store alone\<close>

text \<open>
  A frame property: \<open>keeps_store m\<close> when running \<open>m\<close> never changes the store (it may
  append to the log). It is closed under the combinators, so it is proved for a whole
  handler by applying the rules below along its text.
\<close>

definition keeps_store :: "(world, 'a) py \<Rightarrow> bool" where
  "keeps_store m \<longleftrightarrow> (\<forall>w r w'. m w = (r, w') \<longrightarrow> w_store w' = w_store w)"

named_theorems keeps_store_intros "rules that prove keeps_store along a statement"

lemma keeps_store_return [keeps_store_intros]: "keeps_store (py_return x)"
  and keeps_store_raise [keeps_store_intros]: "keeps_store (py_raise e)"
  and keeps_store_lift [keeps_store_intros]: "keeps_store (py_lift r)"
  and keeps_store_abort [keeps_store_intros]: "keeps_store (abort c)"
  and keeps_store_jsonify [keeps_store_intros]: "keeps_store (jsonify v)"
  by (simp_all add: keeps_store_def py_simps)

lemma keeps_store_bind [keeps_store_intros]:
  assumes "keeps_store m" and "\<And>x. keeps_store (f x)"
  shows "keeps_store (py_bind m f)"
  using assms unfolding keeps_store_def py_bind_def
  by (fastforce split: prod.splits sum.splits)

lemma keeps_store_then [keeps_store_intros]:
  "keeps_store m \<Longrightarrow> keeps_store n \<Longrightarrow> keeps_store (py_then m n)"
  unfolding py_then_def by (rule keeps_store_bind)

lemma keeps_store_when [keeps_store_intros]: "keeps_store m \<Longrightarrow> keeps_store (py_when b m)"
  by (simp add: py_when_def keeps_store_return)

lemma keeps_store_try [keeps_store_intros]:
  assumes "keeps_store body" and "\<And>e. keeps_store (h e)" and "keeps_store fin"
  shows "keeps_store (py_try body h fin)"
  using assms unfolding keeps_store_def py_try_def
  by (fastforce split: prod.splits sum.splits)

lemma keeps_store_try_except [keeps_store_intros]:
  "keeps_store body \<Longrightarrow> (\<And>e. keeps_store (h e)) \<Longrightarrow> keeps_store (py_try_except body h)"
  unfolding py_try_except_def by (intro keeps_store_try keeps_store_return)

lemma keeps_store_if [keeps_store_intros]:
  "keeps_store a \<Longrightarrow> keeps_store b \<Longrightarrow> keeps_store (if c then a else b)"
  by simp

lemma keeps_store_Let [keeps_store_intros]: "keeps_store (f x) \<Longrightarrow> keeps_store (Let x f)"
  by simp

lemma keeps_store_case_option [keeps_store_intros]:
  "keeps_store a \<Longrightarrow> (\<And>y. keeps_store (b y)) \<Longrightarrow> keeps_store (case x of None \<Rightarrow> a | Some y \<Rightarrow> b y)"
  by (cases x) simp_all

lemma keeps_store_ops [keeps_store_intros]:
  "keeps_store query_questions" "keeps_store query_categories" "keeps_store (query_get i)"
  "keeps_store (query_by_category v)" "keeps_store (query_ilike v)"
  "keeps_store (query_first_not_in v)" "keeps_store (query_first_in_category_not_in v v')"
  "keeps_store db_commit" "keeps_store db_rollback" "keeps_store db_close" "keeps_store db_sessions_commit"
  by (simp_all add: keeps_store_def store_simps py_simps)

lemma keeps_store_quiz_select [keeps_store_intros]: "keeps_store (quiz_select a b c)"
  unfolding quiz_select_def by (intro keeps_store_intros)

lemma keeps_storeD: "keeps_store m \<Longrightarrow> w_store (snd (m w)) = w_store w"
  unfolding keeps_store_def by (metis prod.collapse)

section \<open>Each route function\<close>

lemma keeps_store_reads:
  "keeps_store get_categories" "keeps_store (get_questions r)" "keeps_store (search_questions r)"
  "keeps_store (get_questions_by_categories c r)" "keeps_store (quizzes_search r)"
  unfolding handler_defs by (intro keeps_store_intros)+

text \<open>
  The four route functions that change the store or draw a question end in an exception on
  every path: an \<^verbatim>\<open>abort\<close> or an error of the body.
\<close>

lemma del_question_fails: "isl (fst (del_question i r w))"
  by (simp add: del_question_def py_simps store_simps Let_def log_call_def question_obj_def
      split: sum.splits option.splits prod.splits)

lemma post_question_fails: "isl (fst (post_question r w))"
  by (simp add: post_question_def py_simps store_simps Let_def log_call_def question_obj_def
      question_insert_def split: sum.splits option.splits prod.splits)

lemma get_questions_by_categories_fails: "isl (fst (get_questions_by_categories c r w))"
  by (simp add: get_questions_by_categories_def py_simps store_simps Let_def log_call_def
      split: sum.splits option.splits prod.splits)

lemma quizzes_search_fails: "isl (fst (quizzes_search r w))"
  by (simp add: quizzes_search_def py_simps store_simps Let_def log_call_def question_obj_def
      quiz_select_def first_obj_def split: sum.splits option.splits prod.splits)

section \<open>The lookup table of questions\<close>

lemma map_of_filter_id:
  "map_of (map (\<lambda>q. (q_id q, q)) (filter (\<lambda>q. q_id q \<noteq> i) qs)) =
   (map_of (map (\<lambda>q. (q_id q, q)) qs))(i := None)"
  by (induction qs) (auto simp: fun_upd_twist)

lemma dom_question_map: "dom (question_map s) = qids s"
  by (simp add: question_map_def dom_map_of_conv_image_fst image_image)

text \<open>The map laws of the two updates (cf. the \<open>Map\<close> specification of lookup tables).\<close>

lemma question_map_delete: "question_map (store_delete i s) = (question_map s)(i := None)"
  by (simp add: question_map_def store_delete_def map_of_filter_id)

lemma question_map_insert:
  assumes "store_wf s" and "store_insert qu an ca di s = (q, s')"
  shows "question_map s' = (question_map s)(st_next_qid s \<mapsto> q)"
    and "q_id q = st_next_qid s" and "st_next_qid s \<notin> dom (question_map s)"
proof -
  show fresh: "st_next_qid s \<notin> dom (question_map s)"
    using assms(1) by (auto simp: dom_question_map store_wf_def list_all_iff)
  have qs': "st_questions s' = st_questions s @ [q]"
    using assms(2) by (auto simp: store_insert_def Let_def)
  show "q_id q = st_next_qid s"
    using assms(2) by (auto simp: store_insert_def Let_def)
  then have "question_map s' = [st_next_qid s \<mapsto> q] ++ question_map s"
    using qs' by (simp add: question_map_def)
  also have "\<dots> = (question_map s)(st_next_qid s \<mapsto> q)"
    using fresh by (rule map_add_singleton_fresh)
  finally show "question_map s' = (question_map s)(st_next_qid s \<mapsto> q)" .
qed

text \<open>What the two writing route functions do to the store, on every path.\<close>

lemma del_question_store:
  "w_store (snd (del_question i r w)) = w_store w
   \<or> w_store (snd (del_question i r w)) = store_delete i (w_store w)"
  by (auto simp: del_question_def py_simps store_simps Let_def log_call_def
      split: sum.splits option.splits prod.splits dest: find_id_Some)

lemma post_question_store:
  "w_store (snd (post_question r w)) = w_store w
   \<or> (\<exists>q. post_fields r q \<and> store_insert (q_question q) (q_answer q) (q_category q) (q_difficulty q) (w_store w)
            = (q, w_store (snd (post_question r w))))"
proof (cases "\<exists>qu an ca di. req_method r = ''POST''
    \<and> py_getitem (req_json r) (PStr ''question'') = Inr (PStr qu)
    \<and> py_getitem (req_json r) (PStr ''answer'') = Inr (PStr an)
    \<and> py_getitem (req_json r) (PStr ''category'') = Inr (PInt ca)
    \<and> py_getitem (req_json r) (PStr ''difficulty'') = Inr (PInt di)")
  case True
  then obtain qu an ca di where m: "req_method r = ''POST''"
    and f: "py_getitem (req_json r) (PStr ''question'') = Inr (PStr qu)"
      "py_getitem (req_json r) (PStr ''answer'') = Inr (PStr an)"
      "py_getitem (req_json r) (PStr ''category'') = Inr (PInt ca)"
      "py_getitem (req_json r) (PStr ''difficulty'') = Inr (PInt di)"
    by blast
  let ?q = "fst (store_insert qu an ca di (w_store w))"
  have "post_fields r ?q"
    using f by (simp add: post_fields_def store_insert_def Let_def)
  moreover have "store_insert (q_question ?q) (q_answer ?q) (q_category ?q) (q_difficulty ?q) (w_store w)
      = (?q, w_store (snd (post_question r w)))"
    by (simp add: post_question_typed[OF m f] inserted_world_def store_insert_def Let_def)
  ultimately show ?thesis by blast
next
  case False
  then have "w_store (snd (post_question r w)) = w_store w"
    by (auto simp: post_question_def py_simps store_simps Let_def log_call_def question_insert_def
        as_str_def as_int_def split: sum.splits option.splits prod.splits pyval.splits)
  then show ?thesis by blast
qed
section \<open>Claims\<close>

text \<open>
  C16: Every request other than a deletion or a creation (the two listings, the search,
  the questions of a category and the quiz) leaves the store unchanged, on every path,
  errors included.
\<close>

theorem read_only_requests:
  assumes "\<forall>i r. e \<noteq> DeleteQuestion i r" and "\<forall>r. e \<noteq> PostQuestion r"
  shows "w_store (snd (serve e w)) = w_store w"
  using assms by (cases e) (simp_all add: keeps_storeD keeps_store_reads)

lemma read_only_requests_witness:
  "(\<forall>i r. Quizzes (quiz_request (PList []) (PInt 0)) \<noteq> DeleteQuestion i r)
   \<and> (\<forall>r. Quizzes (quiz_request (PList []) (PInt 0)) \<noteq> PostQuestion r)
   \<and> w_store (snd (serve (Quizzes (quiz_request (PList []) (PInt 0))) example_world)) = w_store example_world"
proof -
  have h1: "\<forall>i r. Quizzes (quiz_request (PList []) (PInt 0)) \<noteq> DeleteQuestion i r" by simp
  have h2: "\<forall>r. Quizzes (quiz_request (PList []) (PInt 0)) \<noteq> PostQuestion r" by simp
  show ?thesis using h1 h2 read_only_requests[OF h1 h2] by simp
qed

text \<open>
  C32: Four of the seven endpoints never succeed: every request to
  \<^verbatim>\<open>DELETE /questionsDelete/<id>\<close>, \<^verbatim>\<open>POST /questionsPost\<close>,
  \<^verbatim>\<open>GET /categories/<id>/questions\<close> and \<^verbatim>\<open>POST /quizzes\<close>, on every store, ends in
  an exception (an \<^verbatim>\<open>abort\<close> or an uncaught error), never in a JSON body.
\<close>

theorem failing_endpoints:
  "isl (fst (serve (DeleteQuestion i r) w)) \<and> isl (fst (serve (PostQuestion r) w))
   \<and> isl (fst (serve (QuestionsByCategory c r) w)) \<and> isl (fst (serve (Quizzes r) w))"
  by (simp add: del_question_fails post_question_fails get_questions_by_categories_fails
      quizzes_search_fails)

text \<open>
  C30: Refinement, request by request. On a well-formed store, every request moves the
  id-to-row table by an operation its endpoint allows: a deletion of id \<open>i\<close> removes at
  most the entry \<open>i\<close>; a creation adds at most one entry, under a fresh id, whose row has
  the question, answer, category and difficulty of the body; every other request leaves the
  table as it is.
\<close>

theorem serve_refines_map:
  assumes "store_wf (w_store w)"
  shows "map_op e (question_map (w_store w)) (question_map (w_store (snd (serve e w))))"
proof (cases e)
  case (DeleteQuestion i r)
  then show ?thesis
    using del_question_store[of i r w]
    by (auto simp: question_map_delete intro: map_op.unchanged map_op.remove)
next
  case (PostQuestion r)
  show ?thesis
  proof (cases "w_store (snd (post_question r w)) = w_store w")
    case True
    then show ?thesis by (simp add: PostQuestion map_op.unchanged)
  next
    case False
    then obtain q where f: "post_fields r q"
      and ins: "store_insert (q_question q) (q_answer q) (q_category q) (q_difficulty q) (w_store w)
                  = (q, w_store (snd (post_question r w)))"
      using post_question_store[of r w] by blast
    note laws = question_map_insert[OF assms ins]
    show ?thesis
      unfolding PostQuestion serve.simps laws(1)
      by (rule map_op.add[OF laws(3) laws(2) f])
  qed
qed (simp_all add: keeps_storeD keeps_store_reads map_op.unchanged)

lemma serve_refines_map_witness:
  "store_wf (w_store example_world)
   \<and> map_op (PostQuestion (post_request ''Q'' ''A'' 1 1)) (question_map (w_store example_world))
       (question_map (w_store (snd (serve (PostQuestion (post_request ''Q'' ''A'' 1 1)) example_world))))"
proof -
  have h: "store_wf (w_store example_world)"
    by (simp add: store_wf_def example_world_def example_store_def)
  show ?thesis using h serve_refines_map[OF h] by blast
qed

end
