(* ===== verification/Scenarios.thy ===== *)
theory Scenarios
  imports Requests Search Pagination
begin

text \<open>
  Requests of different route functions in sequence, where one reads what another wrote.
  A creation request (\<^verbatim>\<open>post_question\<close>) ends in 422 but has inserted and committed its
  row; the lookup table of questions (\<open>question_map\<close>) then obeys the update law of a
  map, and a search (\<^verbatim>\<open>search_questions\<close>) for the new question's own text finds it.
  A deletion request also ends in 422 after its commit; no later listing or search shows
  the deleted row.
\<close>

section \<open>Creation, then search\<close>

lemma contains_ci_refl: "contains_ci t t"
  by (simp add: contains_ci_def)

lemma post_request_store:
  "w_store (snd (post_question (post_request qu an ca di) w)) = snd (store_insert qu an ca di (w_store w))"
  by (simp add: post_question_typed inserted_world_def)

lemma search_finds_row:
  assumes "\<not> list_ex is_wildcard t" and "q \<in> set (st_questions (w_store w))"
    and "contains_ci t (q_question q)"
  shows "\<exists>rows. fst (search_questions (search_request (PStr t)) w) = Inr (search_json rows) \<and> q \<in> set rows"
proof -
  let ?rows = "filter (\<lambda>q. contains_ci t (q_question q)) (st_questions (w_store w))"
  have "q \<in> set ?rows" using assms(2,3) by simp
  moreover have "fst (search_questions (search_request (PStr t)) w) = Inr (search_json ?rows)"
    using \<open>q \<in> set ?rows\<close>
    by (auto simp: search_questions_term filter_ilike_contains[OF assms(1), simplified] Let_def
        filter_empty_conv)
  ultimately show ?thesis by blast
qed

text \<open>
  C21: Round trip of creation and lookup. On a well-formed store, a creation request with
  the four fields of the right types adds its row under the next id and changes no other
  entry of the id-to-row table (the update law of a map), although it answers 422; and a
  search for the new question's text (without wildcard characters) then returns a list of
  questions that contains the new row.
\<close>

theorem created_question_found:
  assumes "store_wf (w_store w)" and "\<not> list_ex is_wildcard qu"
  shows "question_map (w_store (snd (post_question (post_request qu an ca di) w))) =
           (question_map (w_store w))(st_next_qid (w_store w) \<mapsto> fst (store_insert qu an ca di (w_store w)))
         \<and> fst (post_question (post_request qu an ca di) w) = Inl (HTTPAbort 422)
         \<and> (\<exists>rows. fst (search_questions (search_request (PStr qu)) (snd (post_question (post_request qu an ca di) w)))
                    = Inr (search_json rows)
                  \<and> fst (store_insert qu an ca di (w_store w)) \<in> set rows)"
proof -
  let ?w' = "snd (post_question (post_request qu an ca di) w)"
  obtain q s' where ins: "store_insert qu an ca di (w_store w) = (q, s')" by fastforce
  have st: "w_store ?w' = s'" using ins by (simp add: post_request_store)
  have map: "question_map s' = (question_map (w_store w))(st_next_qid (w_store w) \<mapsto> q)"
    using question_map_insert(1)[OF assms(1) ins] .
  have row: "q \<in> set (st_questions s')" and qtext: "q_question q = qu"
    using ins by (auto simp: store_insert_def Let_def)
  have "\<exists>rows. fst (search_questions (search_request (PStr qu)) ?w') = Inr (search_json rows) \<and> q \<in> set rows"
    using search_finds_row[OF assms(2)] row qtext st contains_ci_refl by simp
  moreover have "fst (post_question (post_request qu an ca di) w) = Inl (HTTPAbort 422)"
    by (simp add: post_question_typed)
  ultimately show ?thesis using st map ins by simp
qed

lemma created_question_found_witness:
  "store_wf (w_store example_world) \<and> \<not> list_ex is_wildcard ''Capital of Peru?''
   \<and> (\<exists>rows. fst (search_questions (search_request (PStr ''Capital of Peru?''))
          (snd (post_question (post_request ''Capital of Peru?'' ''Lima'' 3 2) example_world)))
        = Inr (search_json rows)
      \<and> fst (store_insert ''Capital of Peru?'' ''Lima'' 3 2 (w_store example_world)) \<in> set rows)"
proof -
  have h1: "store_wf (w_store example_world)"
    by (simp add: store_wf_def example_world_def example_store_def)
  have h2: "\<not> list_ex is_wildcard ''Capital of Peru?''"
    by (simp add: is_wildcard_def)
  show ?thesis
    using h1 h2 created_question_found[OF h1 h2, of "''Lima''" 3 2] by blast
qed

section \<open>Deletion, then listing and search\<close>

text \<open>Whatever a successful listing or search shows is a row of the store it ran on.\<close>

lemma search_questions_ok_term:
  assumes "search_questions r w = (Inr j, w'')"
  shows "\<exists>t. req_method r = ''POST'' \<and> py_getitem (req_json r) (PStr ''searchTerm'') = Inr (PStr t)"
  using assms
  by (auto simp: search_questions_def py_simps store_simps
      split: sum.splits if_splits pyval.splits elim: py_str_concat.elims)

lemma search_rows_in_store:
  assumes "search_questions r w = (Inr j, w'')"
  shows "\<exists>rows. j = search_json rows \<and> set rows \<subseteq> set (st_questions (w_store w))"
proof -
  obtain t where m: "req_method r = ''POST''" and t: "py_getitem (req_json r) (PStr ''searchTerm'') = Inr (PStr t)"
    using search_questions_ok_term[OF assms] by blast
  let ?rows = "filter (\<lambda>q. ilike (''%'' @ t @ ''%'') (q_question q)) (st_questions (w_store w))"
  have "j = search_json ?rows"
    using assms search_questions_term[OF m t] by (simp add: Let_def split: if_splits)
  then show ?thesis by auto
qed

lemma listing_rows_in_store:
  assumes "get_questions r w = (Inr j, w'')"
  shows "\<exists>rows. j = listing_json rows (w_store w) \<and> set rows \<subseteq> set (st_questions (w_store w))"
proof -
  let ?p = "args_get_int (req_args r) ''page'' 1"
  let ?rows = "py_slice (st_questions (w_store w)) ((?p - 1) * 10) (?p * 10)"
  have "j = listing_json ?rows (w_store w)"
    using assms by (auto simp: get_questions_cases Let_def split: if_splits)
  moreover have "set ?rows \<subseteq> set (st_questions (w_store w))"
    using py_slice_sublist by (rule set_mono_sublist)
  ultimately show ?thesis by blast
qed

lemma del_question_removes:
  assumes "req_method r = ''DELETE''"
    and "py_getitem (req_json r) (PStr ''currentCategory'') = Inr cc"
    and "i \<in> qids (w_store w)"
  shows "fst (del_question i r w) = Inl (HTTPAbort 422)"
    and "w_store (snd (del_question i r w)) = store_delete i (w_store w)"
proof -
  obtain q where "find (\<lambda>q. q_id q = i) (st_questions (w_store w)) = Some q"
    using assms(3) find_None_all[of "\<lambda>q. q_id q = i" "st_questions (w_store w)"]
    by (cases "find (\<lambda>q. q_id q = i) (st_questions (w_store w))") auto
  note d = del_question_found[OF assms(1,2) this]
  show "fst (del_question i r w) = Inl (HTTPAbort 422)" by (simp add: d)
  show "w_store (snd (del_question i r w)) = store_delete i (w_store w)"
    by (simp add: d deleted_world_def)
qed

text \<open>
  C2: Deletion, then listing and search. A deletion request for an existing id with a
  \<^verbatim>\<open>currentCategory\<close> answers 422, but the row is gone: no page of
  \<^verbatim>\<open>GET /questions\<close> (whatever its \<^verbatim>\<open>page\<close> argument) and no search (whatever its
  term) that succeeds afterwards shows a row with that id.
\<close>

theorem deleted_question_unlisted:
  assumes "req_method r = ''DELETE''"
    and "py_getitem (req_json r) (PStr ''currentCategory'') = Inr cc"
    and "i \<in> qids (w_store w)"
  shows "fst (del_question i r w) = Inl (HTTPAbort 422)
    \<and> (\<forall>rq j w''. get_questions rq (snd (del_question i r w)) = (Inr j, w'') \<longrightarrow>
         (\<exists>rows. j = listing_json rows (w_store (snd (del_question i r w))) \<and> i \<notin> q_id ` set rows))
    \<and> (\<forall>rq j w''. search_questions rq (snd (del_question i r w)) = (Inr j, w'') \<longrightarrow>
         (\<exists>rows. j = search_json rows \<and> i \<notin> q_id ` set rows))"
proof -
  let ?w' = "snd (del_question i r w)"
  have gone: "i \<notin> qids (w_store ?w')"
    by (simp add: del_question_removes(2)[OF assms])
  have "\<And>rows. set rows \<subseteq> set (st_questions (w_store ?w')) \<Longrightarrow> i \<notin> q_id ` set rows"
    using gone by blast
  then show ?thesis
    using del_question_removes(1)[OF assms] listing_rows_in_store search_rows_in_store
    by meson
qed

lemma deleted_question_unlisted_witness:
  "req_method (delete_request (PInt 1)) = ''DELETE''
   \<and> py_getitem (req_json (delete_request (PInt 1))) (PStr ''currentCategory'') = Inr (PInt 1)
   \<and> 2 \<in> qids (w_store example_world)
   \<and> fst (del_question 2 (delete_request (PInt 1)) example_world) = Inl (HTTPAbort 422)"
proof -
  have h1: "req_method (delete_request (PInt 1)) = ''DELETE''" by simp
  have h2: "py_getitem (req_json (delete_request (PInt 1))) (PStr ''currentCategory'') = Inr (PInt 1)" by simp
  have h3: "2 \<in> qids (w_store example_world)" by (simp add: example_world_def example_store_def)
  show ?thesis using h1 h2 h3 deleted_question_unlisted[OF h1 h2 h3] by blast
qed

end
