(* ===== verification/Flask_Factory.thy ===== *)
theory Flask_Factory
  imports Py_Runtime
begin

text \<open>
  The application factory \<^verbatim>\<open>create_app\<close> as the sequence of registrations it performs
  (\<open>create_app_actions\<close>), run by \<open>run_setup\<close> with Flask's \<^verbatim>\<open>add_url_rule\<close> and
  the keyword check of Werkzeug's \<^verbatim>\<open>Rule\<close>. The registration of \<^verbatim>\<open>post_question\<close>
  with the keyword \<^verbatim>\<open>method\<close> makes the factory raise.
\<close>

section \<open>The application factory\<close>

text \<open>
  One registration of \<^verbatim>\<open>create_app\<close>. A route carries its rule, the keyword arguments
  of \<^verbatim>\<open>@app.route\<close> (only list-valued ones occur) and the endpoint name.
\<close>

datatype setup_action =
    SetupDb
  | Cors "string list"
  | AfterRequest
  | Route string "(string \<times> string list) list" string
  | ErrorHandler nat

record app =
  app_rules :: "(string \<times> string list \<times> string) list"
  app_cors :: "string list"
  app_after_request :: bool
  app_error_handlers :: "nat list"

definition empty_app :: app where
  "empty_app = \<lparr>app_rules = [], app_cors = [], app_after_request = False, app_error_handlers = []\<rparr>"

text \<open>The keyword parameters of Werkzeug's \<^verbatim>\<open>Rule.__init__\<close> besides \<^verbatim>\<open>methods\<close>.\<close>

definition rule_keywords :: "string list" where
  "rule_keywords = [''defaults'', ''subdomain'', ''build_only'', ''endpoint'', ''strict_slashes'',
     ''merge_slashes'', ''redirect_to'', ''alias'', ''host'', ''websocket'']"

text \<open>
  The methods of a rule: the given ones (\<^verbatim>\<open>GET\<close> by default), \<^verbatim>\<open>HEAD\<close> with
  \<^verbatim>\<open>GET\<close>, and the automatic \<^verbatim>\<open>OPTIONS\<close>.
\<close>

definition rule_methods :: "string list \<Rightarrow> string list" where
  "rule_methods ms = remdups (ms @ (if ''GET'' \<in> set ms then [''HEAD''] else []) @ [''OPTIONS''])"

text \<open>
  \<^verbatim>\<open>app.add_url_rule(rule, endpoint, view, **options)\<close>: \<^verbatim>\<open>methods\<close> is popped and
  every other keyword is passed to \<^verbatim>\<open>Rule(rule, methods=methods, **options)\<close>, which
  raises \<^verbatim>\<open>TypeError\<close> on a keyword it does not take.
\<close>

definition add_url_rule :: "string \<Rightarrow> (string \<times> string list) list \<Rightarrow> string \<Rightarrow> app \<Rightarrow> py_exc + app" where
  "add_url_rule rule options endpoint a =
     (let methods = (case map_of options ''methods'' of None \<Rightarrow> [''GET''] | Some ms \<Rightarrow> ms);
          rest = filter (\<lambda>(k, _). k \<noteq> ''methods'') options
      in if list_all (\<lambda>(k, _). k \<in> set rule_keywords) rest
         then Inr (a\<lparr>app_rules := app_rules a @ [(rule, rule_methods methods, endpoint)]\<rparr>)
         else Inl TypeError)"

fun setup_step :: "setup_action \<Rightarrow> app \<Rightarrow> py_exc + app" where
  "setup_step SetupDb a = Inr a"
| "setup_step (Cors rs) a = Inr (a\<lparr>app_cors := rs\<rparr>)"
| "setup_step AfterRequest a = Inr (a\<lparr>app_after_request := True\<rparr>)"
| "setup_step (Route rule options endpoint) a = add_url_rule rule options endpoint a"
| "setup_step (ErrorHandler c) a = Inr (a\<lparr>app_error_handlers := app_error_handlers a @ [c]\<rparr>)"

fun run_setup :: "setup_action list \<Rightarrow> app \<Rightarrow> py_exc + app" where
  "run_setup [] a = Inr a"
| "run_setup (act # acts) a = (case setup_step act a of Inl e \<Rightarrow> Inl e | Inr a' \<Rightarrow> run_setup acts a')"

text \<open>
  The registrations of \<^verbatim>\<open>create_app\<close> in the order of the source; the route of
  \<^verbatim>\<open>post_question\<close> (line 160) is declared with \<^verbatim>\<open>method=['POST']\<close>.
\<close>

definition cors_resources :: "string list" where
  "cors_resources = [''/app/*'']"

definition create_app_actions :: "setup_action list" where
  "create_app_actions =
     [SetupDb, Cors cors_resources, AfterRequest,
      Route ''/categories'' [(''methods'', [''GET''])] ''get_categories'',
      Route ''/questions'' [(''methods'', [''GET''])] ''get_questions'',
      Route ''/questionsDelete/<int:delete_id>'' [(''methods'', [''DELETE''])] ''del_question'',
      Route ''/questionsPost'' [(''method'', [''POST''])] ''post_question'',
      Route ''/questions/search'' [(''methods'', [''POST''])] ''search_questions'',
      Route ''/categories/<int:category_id>/questions'' [(''methods'', [''GET''])]
        ''get_questions_by_categories'',
      Route ''/quizzes'' [(''methods'', [''POST''])] ''quizzes_search'',
      ErrorHandler 404, ErrorHandler 405, ErrorHandler 422, ErrorHandler 400]"

definition create_app :: "py_exc + app" where
  "create_app = run_setup create_app_actions empty_app"

section \<open>The factory raises\<close>

text \<open>
  C22: \<^verbatim>\<open>create_app()\<close> never returns an application: the first six registrations
  succeed, and the seventh, the route of \<^verbatim>\<open>post_question\<close> declared with the keyword
  \<^verbatim>\<open>method=['POST']\<close> (line 160), raises \<^verbatim>\<open>TypeError\<close> in \<^verbatim>\<open>Rule\<close>.
\<close>

theorem create_app_raises:
  "create_app = Inl TypeError
   \<and> (\<exists>a. run_setup (take 6 create_app_actions) empty_app = Inr a
          \<and> setup_step (create_app_actions ! 6) a = Inl TypeError)"
  by (simp add: create_app_def create_app_actions_def empty_app_def rule_keywords_def add_url_rule_def)

end
