(* ===== verification/Flask_App.thy ===== *)
theory Flask_App
  imports Requests Flask_Factory
begin

text \<open>
  The response pipeline that the factory of \<open>Flask_Factory\<close> configures: the four error
  handlers (lines 320--350), the \<^verbatim>\<open>after_request\<close> hook (lines 25--29) and the
  flask-cors hook for the resources of line 20. The outcome of a route function becomes an
  HTTP response by Flask's exception handling, then the after-request functions in reverse
  order of registration (the application's hook, then the one \<^verbatim>\<open>CORS(app)\<close>
  installed).
\<close>

section \<open>Responses\<close>

datatype resp_body = JsonBody json | HtmlPage nat

record response =
  resp_status :: nat
  resp_body :: resp_body
  resp_headers :: "(string \<times> string) list"

text \<open>\<^verbatim>\<open>jsonify(d), code\<close>: a JSON response with the given status.\<close>

definition json_response :: "json \<Rightarrow> nat \<Rightarrow> response" where
  "json_response j c = \<lparr>resp_status = c, resp_body = JsonBody j,
                        resp_headers = [(''Content-Type'', ''application/json'')]\<rparr>"

text \<open>Werkzeug's own HTML page for an HTTP error without a registered handler.\<close>

definition html_error :: "nat \<Rightarrow> response" where
  "html_error c = \<lparr>resp_status = c, resp_body = HtmlPage c,
                   resp_headers = [(''Content-Type'', ''text/html; charset=utf-8'')]\<rparr>"

definition error_view :: "nat \<Rightarrow> string \<Rightarrow> py_exc + response" where
  "error_view c message =
     (case to_json (PDict [(PStr ''success'', PBool False), (PStr ''error'', PInt (int c)),
                           (PStr ''message'', PStr message)]) of
        Inl e \<Rightarrow> Inl e
      | Inr j \<Rightarrow> Inr (json_response j c))"

definition not_found :: "py_exc + response" where
  "not_found = error_view 404 ''Resource Not Found''"

definition not_allowed :: "py_exc + response" where
  "not_allowed = error_view 405 ''Not Allowed''"

definition unprocessable :: "py_exc + response" where
  "unprocessable = error_view 422 ''Unprocessable''"

definition bad_request :: "py_exc + response" where
  "bad_request = error_view 400 ''Bad Request''"

text \<open>The handlers registered with \<^verbatim>\<open>@app.errorhandler(code)\<close>.\<close>

definition registered_handler :: "nat \<Rightarrow> (py_exc + response) option" where
  "registered_handler c =
     (if c = 404 then Some not_found else if c = 405 then Some not_allowed
      else if c = 422 then Some unprocessable else if c = 400 then Some bad_request else None)"

text \<open>
  Flask's \<^verbatim>\<open>handle_user_exception\<close> and \<^verbatim>\<open>handle_exception\<close>: an HTTP error goes to
  its registered handler or, without one, to Werkzeug's page; any other exception becomes
  \<^verbatim>\<open>InternalServerError\<close>, for which no handler is registered (an error raised by a
  handler is treated the same way).
\<close>

definition flask_response :: "py_exc + json \<Rightarrow> response" where
  "flask_response r =
     (case r of
        Inr j \<Rightarrow> json_response j 200
      | Inl (HTTPAbort c) \<Rightarrow>
          (case registered_handler c of
             Some (Inr resp) \<Rightarrow> resp
           | Some (Inl _) \<Rightarrow> html_error 500
           | None \<Rightarrow> html_error c)
      | Inl _ \<Rightarrow> html_error 500)"

definition add_header :: "string \<Rightarrow> string \<Rightarrow> response \<Rightarrow> response" where
  "add_header k v response = response\<lparr>resp_headers := resp_headers response @ [(k, v)]\<rparr>"

definition after_request :: "response \<Rightarrow> response" where
  "after_request response =
     add_header ''Access-Control-Allow-Methods'' ''GET, POST, PATCH, DELETE, OPTIONS''
       (add_header ''Access-Control-Allow-Headers'' ''Content-Type, Authorization'' response)"

text \<open>
  A resource pattern of flask-cors is a regular expression matched with \<^verbatim>\<open>re.match\<close>
  (anchored at the start only) ignoring case. For a pattern \<open>p @ ''/*''\<close> with a literal
  \<open>p\<close>, as \<^verbatim>\<open>r"/app/*"\<close>, the trailing \<^verbatim>\<open>/*\<close> may match no character, so the paths
  matched are those that begin with \<open>p\<close>; any other pattern is compared literally.
\<close>

definition cors_match :: "string \<Rightarrow> string \<Rightarrow> bool" where
  "cors_match pat path \<longleftrightarrow>
     (if suffix ''/*'' pat then prefix (map lower_char (take (length pat - 2) pat)) (map lower_char path)
      else map lower_char pat = map lower_char path)"

text \<open>
  The after-request function of flask-cors: a request that carries an \<^verbatim>\<open>Origin\<close>
  header and whose path matches a resource receives \<^verbatim>\<open>Access-Control-Allow-Origin\<close>
  with the configured origin \<^verbatim>\<open>*\<close>.
\<close>

definition cors_after :: "string list \<Rightarrow> string option \<Rightarrow> string \<Rightarrow> response \<Rightarrow> response" where
  "cors_after resources origin path response =
     (if origin \<noteq> None \<and> list_ex (\<lambda>pat. cors_match pat path) resources
      then add_header ''Access-Control-Allow-Origin'' ''*'' response else response)"

definition finalize :: "string option \<Rightarrow> string \<Rightarrow> py_exc + json \<Rightarrow> response" where
  "finalize origin path r = cors_after cors_resources origin path (after_request (flask_response r))"

section \<open>Requests over HTTP\<close>

fun endpoint_path :: "endpoint \<Rightarrow> string" where
  "endpoint_path GetCategories = ''/categories''"
| "endpoint_path (GetQuestions r) = ''/questions''"
| "endpoint_path (DeleteQuestion i r) = ''/questionsDelete/'' @ py_str_of_int i"
| "endpoint_path (PostQuestion r) = ''/questionsPost''"
| "endpoint_path (SearchQuestions r) = ''/questions/search''"
| "endpoint_path (QuestionsByCategory c r) = ''/categories/'' @ py_str_of_int c @ ''/questions''"
| "endpoint_path (Quizzes r) = ''/quizzes''"

text \<open>One request: the route function runs on the world, then the response is finalised.\<close>

definition serve_http :: "string option \<Rightarrow> endpoint \<Rightarrow> world \<Rightarrow> response \<times> world" where
  "serve_http origin e w = (let (r, w') = serve e w in (finalize origin (endpoint_path e) r, w'))"

section \<open>Properties of the Flask layer\<close>

lemma error_view_response:
  "error_view c m = Inr (json_response (JObj [(''success'', JBool False), (''error'', JInt (int c)),
                          (''message'', JStr m)]) c)"
  by (simp add: error_view_def)

lemma flask_response_headers: "fst ` set (resp_headers (flask_response r)) \<subseteq> {''Content-Type''}"
  by (auto simp: flask_response_def json_response_def html_error_def registered_handler_def
      not_found_def not_allowed_def unprocessable_def bad_request_def error_view_response
      split: sum.splits py_exc.splits option.splits)

lemma finalize_headers:
  "resp_headers (finalize origin path r) =
     resp_headers (flask_response r) @
     [(''Access-Control-Allow-Headers'', ''Content-Type, Authorization''),
      (''Access-Control-Allow-Methods'', ''GET, POST, PATCH, DELETE, OPTIONS'')] @
     (if origin \<noteq> None \<and> list_ex (\<lambda>pat. cors_match pat path) cors_resources
      then [(''Access-Control-Allow-Origin'', ''*'')] else [])"
  by (simp add: finalize_def cors_after_def after_request_def add_header_def)

lemma finalize_status_body:
  "resp_status (finalize origin path r) = resp_status (flask_response r)"
  "resp_body (finalize origin path r) = resp_body (flask_response r)"
  by (simp_all add: finalize_def cors_after_def after_request_def add_header_def)

lemma serve_http_fst: "fst (serve_http origin e w) = finalize origin (endpoint_path e) (fst (serve e w))"
  by (simp add: serve_http_def split: prod.split)

lemma serve_http_snd: "snd (serve_http origin e w) = snd (serve e w)"
  by (simp add: serve_http_def split: prod.split)

lemma cors_app_prefix: "list_ex (\<lambda>pat. cors_match pat path) cors_resources \<longleftrightarrow> prefix ''/app'' (map lower_char path)"
proof -
  have "suffix ''/*'' ''/app/*''"
    unfolding suffix_def by (rule exI[of _ "''/app''"]) simp
  then show ?thesis
    by (simp add: cors_resources_def cors_match_def lower_char_def)
qed

lemma endpoint_path_not_app: "\<not> prefix ''/app'' (map lower_char (endpoint_path e))"
  by (cases e) (simp_all add: lower_char_def)

lemma quizzes_search_no_previous:
  assumes "req_method r = ''POST''"
    and "py_getitem (req_json r) (PStr ''previous_questions'') = Inl e"
  shows "quizzes_search r w = (Inl e, w)"
  using assms by (simp add: quizzes_search_def py_simps)

lemma search_concat_type_error:
  assumes "req_method r = ''POST''"
    and "py_getitem (req_json r) (PStr ''searchTerm'') = Inr v" and "\<forall>s. v \<noteq> PStr s"
  shows "search_questions r w = (Inl TypeError, w)"
proof -
  have "py_str_concat (PStr ''%'') v = Inl TypeError"
    using assms(3) by (cases v) auto
  then show ?thesis
    using assms(1,2) by (simp add: search_questions_def py_simps)
qed

text \<open>
  C23: Each of the four registered error handlers (400, 404, 405, 422) answers an
  \<^verbatim>\<open>abort(c)\<close> with status \<open>c\<close> and the uniform JSON body
  \<open>{success: false, error: c, message: m}\<close>.
\<close>

theorem error_responses:
  assumes "c \<in> {400, 404, 405, 422}"
  shows "\<exists>m. flask_response (Inl (HTTPAbort c)) =
           json_response (JObj [(''success'', JBool False), (''error'', JInt (int c)), (''message'', JStr m)]) c"
  using assms
  by (auto simp: flask_response_def registered_handler_def not_found_def not_allowed_def
      unprocessable_def bad_request_def error_view_response)

lemma error_responses_witness:
  "(404::nat) \<in> {400, 404, 405, 422}
   \<and> (\<exists>m. flask_response (Inl (HTTPAbort 404)) =
           json_response (JObj [(''success'', JBool False), (''error'', JInt 404), (''message'', JStr m)]) 404)"
  using error_responses[of 404] by simp

text \<open>
  C24: Every response to every request, errors included, carries the headers
  \<^verbatim>\<open>Access-Control-Allow-Headers: Content-Type, Authorization\<close> and
  \<^verbatim>\<open>Access-Control-Allow-Methods: GET, POST, PATCH, DELETE, OPTIONS\<close> added by
  \<^verbatim>\<open>after_request\<close>.
\<close>

theorem every_response_allows_headers:
  "(''Access-Control-Allow-Headers'', ''Content-Type, Authorization'') \<in> set (resp_headers (fst (serve_http origin e w)))
   \<and> (''Access-Control-Allow-Methods'', ''GET, POST, PATCH, DELETE, OPTIONS'') \<in> set (resp_headers (fst (serve_http origin e w)))"
  by (simp add: serve_http_fst finalize_headers)

text \<open>
  C25: No response of any route carries \<^verbatim>\<open>Access-Control-Allow-Origin\<close>, whatever the
  request's origin: the CORS resource \<^verbatim>\<open>r"/app/*"\<close> matches only paths that begin with
  \<^verbatim>\<open>/app\<close>, and no route does.
\<close>

theorem no_allow_origin:
  "''Access-Control-Allow-Origin'' \<notin> fst ` set (resp_headers (fst (serve_http origin e w)))"
  using flask_response_headers[of "fst (serve e w)"]
  by (auto simp: serve_http_fst finalize_headers cors_app_prefix endpoint_path_not_app)

text \<open>
  C26: A \<^verbatim>\<open>DELETE\<close> whose JSON body has no \<^verbatim>\<open>currentCategory\<close> fails outside
  every \<^verbatim>\<open>try\<close> and is answered with Werkzeug's HTML page for status 500, not a JSON
  error; the store and the session are untouched.
\<close>

theorem delete_without_category_is_500:
  assumes "req_method r = ''DELETE''"
    and "py_getitem (req_json r) (PStr ''currentCategory'') = Inl e"
  shows "serve_http origin (DeleteQuestion i r) w = (finalize origin (endpoint_path (DeleteQuestion i r)) (Inl e), w)
         \<and> resp_status (fst (serve_http origin (DeleteQuestion i r) w)) = 500
         \<and> resp_body (fst (serve_http origin (DeleteQuestion i r) w)) = HtmlPage 500"
proof -
  have d: "del_question i r w = (Inl e, w)"
    using del_question_no_category[OF assms] .
  have "e = KeyError \<or> e = IndexError \<or> e = TypeError"
    using assms(2) by (rule py_getitem_error)
  then show ?thesis
    by (auto simp: serve_http_def d finalize_status_body flask_response_def html_error_def)
qed

lemma delete_without_category_is_500_witness:
  "req_method \<lparr>req_method = ''DELETE'', req_args = [], req_json = PDict []\<rparr> = ''DELETE''
   \<and> py_getitem (req_json \<lparr>req_method = ''DELETE'', req_args = [], req_json = PDict []\<rparr>) (PStr ''currentCategory'') = Inl KeyError
   \<and> resp_status (fst (serve_http (Some ''http://localhost:3000'')
        (DeleteQuestion 1 \<lparr>req_method = ''DELETE'', req_args = [], req_json = PDict []\<rparr>) example_world)) = 500"
proof -
  let ?r = "\<lparr>req_method = ''DELETE'', req_args = [], req_json = PDict []\<rparr>"
  have h1: "req_method ?r = ''DELETE''" by simp
  have h2: "py_getitem (req_json ?r) (PStr ''currentCategory'') = Inl KeyError" by simp
  show ?thesis using h1 h2 delete_without_category_is_500[OF h1 h2,
      where origin="Some ''http://localhost:3000''" and i=1 and w=example_world] by blast
qed

text \<open>
  C27: A search whose \<^verbatim>\<open>searchTerm\<close> is not a string raises \<^verbatim>\<open>TypeError\<close> in
  \<^verbatim>\<open>'%' + search_term\<close>, outside the \<^verbatim>\<open>try\<close>, and is answered with the HTML
  page for status 500.
\<close>

theorem search_non_string_term_is_500:
  assumes "req_method r = ''POST''"
    and "py_getitem (req_json r) (PStr ''searchTerm'') = Inr v" and "\<forall>s. v \<noteq> PStr s"
  shows "snd (serve_http origin (SearchQuestions r) w) = w
         \<and> resp_status (fst (serve_http origin (SearchQuestions r) w)) = 500
         \<and> resp_body (fst (serve_http origin (SearchQuestions r) w)) = HtmlPage 500"
  using search_concat_type_error[OF assms]
  by (simp add: serve_http_def finalize_status_body flask_response_def html_error_def)

lemma search_non_string_term_is_500_witness:
  "req_method \<lparr>req_method = ''POST'', req_args = [], req_json = PDict [(PStr ''searchTerm'', PInt 7)]\<rparr> = ''POST''
   \<and> py_getitem (req_json \<lparr>req_method = ''POST'', req_args = [], req_json = PDict [(PStr ''searchTerm'', PInt 7)]\<rparr>)
       (PStr ''searchTerm'') = Inr (PInt 7)
   \<and> (\<forall>s. PInt 7 \<noteq> PStr s)
   \<and> resp_status (fst (serve_http None
        (SearchQuestions \<lparr>req_method = ''POST'', req_args = [], req_json = PDict [(PStr ''searchTerm'', PInt 7)]\<rparr>)
        example_world)) = 500"
proof -
  let ?r = "\<lparr>req_method = ''POST'', req_args = [], req_json = PDict [(PStr ''searchTerm'', PInt 7)]\<rparr>"
  have h1: "req_method ?r = ''POST''" by simp
  have h2: "py_getitem (req_json ?r) (PStr ''searchTerm'') = Inr (PInt 7)" by simp
  have h3: "\<forall>s. PInt 7 \<noteq> PStr s" by simp
  show ?thesis
    using h1 h2 h3 search_non_string_term_is_500[OF h1 h2 h3, where origin=None and w=example_world]
    by blast
qed


text \<open>
  C33: A quiz request whose JSON body has no \<^verbatim>\<open>previous_questions\<close> fails before the
  \<^verbatim>\<open>try\<close> and is answered with the HTML page for status 500, not the 422 the
  specification lists for \<^verbatim>\<open>/quizzes\<close>; the store and the session are untouched.
\<close>

theorem quiz_without_previous_is_500:
  assumes "req_method r = ''POST''"
    and "py_getitem (req_json r) (PStr ''previous_questions'') = Inl e"
  shows "snd (serve_http origin (Quizzes r) w) = w
         \<and> resp_status (fst (serve_http origin (Quizzes r) w)) = 500
         \<and> resp_body (fst (serve_http origin (Quizzes r) w)) = HtmlPage 500"
proof -
  have q: "quizzes_search r w = (Inl e, w)"
    using quizzes_search_no_previous[OF assms] .
  have "e = KeyError \<or> e = IndexError \<or> e = TypeError"
    using assms(2) by (rule py_getitem_error)
  then show ?thesis
    by (auto simp: serve_http_def q finalize_status_body flask_response_def html_error_def)
qed

lemma quiz_without_previous_is_500_witness:
  "req_method \<lparr>req_method = ''POST'', req_args = [], req_json = PDict [(PStr ''quiz_category'', PDict [])]\<rparr> = ''POST''
   \<and> py_getitem (req_json \<lparr>req_method = ''POST'', req_args = [], req_json = PDict [(PStr ''quiz_category'', PDict [])]\<rparr>)
       (PStr ''previous_questions'') = Inl KeyError
   \<and> resp_status (fst (serve_http None
        (Quizzes \<lparr>req_method = ''POST'', req_args = [], req_json = PDict [(PStr ''quiz_category'', PDict [])]\<rparr>)
        example_world)) = 500"
proof -
  let ?r = "\<lparr>req_method = ''POST'', req_args = [], req_json = PDict [(PStr ''quiz_category'', PDict [])]\<rparr>"
  have h1: "req_method ?r = ''POST''" by simp
  have h2: "py_getitem (req_json ?r) (PStr ''previous_questions'') = Inl KeyError" by simp
  show ?thesis
    using h1 h2 quiz_without_previous_is_500[OF h1 h2, where origin=None and w=example_world]
    by blast
qed

end
