(* ===== verification/Spec2Isabelle.thy ===== *)
theory Spec2Isabelle
  imports Pagination Search Quiz Requests Scenarios Flask_App
begin

text \<open>
  \<^bold>\<open>A verification model of the trivia API\<close> (\<^verbatim>\<open>src/backend/flaskr/__init__.py\<close>).

  \<^bold>\<open>The program.\<close> A Flask application factory \<^verbatim>\<open>create_app\<close> registers seven route
  functions over two tables of a relational store (\<^verbatim>\<open>Question\<close>, \<^verbatim>\<open>Category\<close>,
  imported from \<^verbatim>\<open>starter.backend.models\<close>, which is not part of the sources), an
  \<^verbatim>\<open>after_request\<close> hook, a CORS set-up and four JSON error handlers. Every route
  function reads the request, queries or changes the store, and returns a JSON body or
  raises; a raised \<^verbatim>\<open>abort(c)\<close> is turned into a JSON error body by the handler for
  \<open>c\<close>.

  \<^bold>\<open>Library layout.\<close>
  \<^item> \<open>Prelude\<close>: the rule collections (\<open>py_simps\<close>, \<open>store_simps\<close>,
    \<open>handler_defs\<close>) and generic lemmas on lists and maps.
  \<^item> \<open>Py_Runtime\<close>: the Python and Werkzeug semantics the handlers rely on: the
    exceptions (\<open>py_exc\<close>), runtime values (\<open>pyval\<close>) and JSON (\<open>json\<close>);
    statements that may raise over an explicit state (\<open>py_bind\<close>, \<open>py_try\<close> for
    \<^verbatim>\<open>try/except/finally\<close> with a bare \<^verbatim>\<open>except\<close>); dict subscription, slicing
    \<open>py_slice\<close> with negative indices, \<^verbatim>\<open>int()\<close> on strings and
    \<^verbatim>\<open>MultiDict.get(..., type=int)\<close> (\<open>args_get_int\<close>), and \<^verbatim>\<open>jsonify\<close>, which
    raises \<^verbatim>\<open>TypeError\<close> on an instance of a user class.
  \<^item> \<open>Sql_Like\<close>: the store's \<^verbatim>\<open>ILIKE\<close> (\<open>ilike\<close>, \<open>like_match\<close>) and the abstract
    search specification \<open>contains_ci\<close>, with the lemma \<open>ilike_contains_ci\<close> that
    the pattern \<^verbatim>\<open>'%' + term + '%'\<close> implements it for a term without wildcards.
  \<^item> \<open>Models\<close>: rows as records (\<open>question\<close>, \<open>category\<close>), the store
    (\<open>store\<close>: both tables and the id sequence), the world a handler runs on
    (\<open>world\<close>: the store and the log of store changes and session calls), the queries
    and updates of the model classes (modelled from the specification), the module's own
    \<^verbatim>\<open>db.session\<close> (\<open>db_commit\<close>, \<open>db_rollback\<close>, \<open>db_close\<close>), the
    \<^verbatim>\<open>convert_questions_to_dict\<close> loop, and the store invariant \<open>store_wf\<close>.
  \<^item> \<open>Handlers\<close>: the seven route functions (\<open>get_categories\<close>, \<open>get_questions\<close>,
    \<open>del_question\<close>, \<open>post_question\<close>, \<open>search_questions\<close>,
    \<open>get_questions_by_categories\<close>, \<open>quizzes_search\<close>), statement by statement.
  \<^item> \<open>Pagination\<close>: \<^verbatim>\<open>GET /questions\<close> (page arithmetic, the \<^verbatim>\<open>page\<close>
    argument, error paths) and \<^verbatim>\<open>GET /categories\<close>.
  \<^item> \<open>Search\<close>: \<^verbatim>\<open>POST /questions/search\<close> on every branch.
  \<^item> \<open>Mutations\<close>: \<^verbatim>\<open>DELETE /questionsDelete/<id>\<close> and
    \<^verbatim>\<open>POST /questionsPost\<close>: what they change in the store and in the session log.
  \<^item> \<open>Quiz\<close>: the quiz draw \<open>quiz_select\<close> (lines 290--294), \<^verbatim>\<open>POST /quizzes\<close>
    and \<^verbatim>\<open>GET /categories/<id>/questions\<close>.
  \<^item> \<open>Requests\<close>: the endpoints as one \<open>datatype endpoint\<close> with a dispatcher
    \<open>serve\<close>; the question table read as a lookup table from id to row
    (\<open>question_map\<close>) and the abstract operations a request to each endpoint may perform
    on it (\<open>map_op\<close>, an inductive relation indexed by the endpoint); the frame predicate
    \<open>keeps_store\<close>, closed under the statement combinators by the rule collection
    \<open>keeps_store_intros\<close>, so that a handler's frame is proved by introduction rules
    rather than by unfolding its branches; and what the two writing handlers do to the
    store on every path (\<open>del_question_store\<close>, \<open>post_question_store\<close>).
  \<^item> \<open>Scenarios\<close>: requests of different route functions in sequence, one reading
    what another wrote (creation then search, deletion then listing and search), over
    the map view \<open>question_map\<close> and its laws
    \<open>question_map_insert\<close> and \<open>question_map_delete\<close> (proved in \<open>Requests\<close>).
  \<^item> \<open>Flask_Factory\<close>: the factory \<open>create_app\<close> as the list of registrations it
    performs (\<open>create_app_actions\<close>, run by \<open>run_setup\<close> with \<^verbatim>\<open>add_url_rule\<close>
    and the keyword check of Werkzeug's \<^verbatim>\<open>Rule\<close>).
  \<^item> \<open>Flask_App\<close>: the error handlers (\<open>not_found\<close>, \<open>not_allowed\<close>,
    \<open>unprocessable\<close>, \<open>bad_request\<close>), the \<^verbatim>\<open>after_request\<close> hook and the CORS
    resources; the response pipeline \<open>finalize\<close> (Flask's exception handling, then the
    after-request functions) and \<open>serve_http\<close>, one request from endpoint to HTTP
    response. The factory raises before it returns (C22), so the pipeline is the one the
    factory configures; its properties say what an application built by these
    registrations would answer.

  \<^bold>\<open>Modelling decisions.\<close> Python integers are \<open>int\<close>; strings are \<open>string\<close> with
  one \<open>char\<close> per byte (non-ASCII digits and spaces accepted by \<^verbatim>\<open>int()\<close> are not
  modelled). The store keeps each table as a list in its own order, which is the order
  \<^verbatim>\<open>.all()\<close> and \<^verbatim>\<open>.first()\<close> see. \<^verbatim>\<open>insert()\<close> and \<^verbatim>\<open>deletes()\<close> commit
  at once, as the specification describes the model classes. The module-level
  \<^verbatim>\<open>db = SQLAlchemy()\<close> (line 9) is a second instance that \<^verbatim>\<open>setup_db\<close> never
  binds, so its session has nothing to commit or roll back: its calls are logged and do
  not change the store. JSON key order (Flask sorts keys) is not modelled. No loop of
  the program can run forever, so the program needs no fuel: every definition is total
  and executable, and the examples are evaluated by \<open>simp\<close> in the kernel. The client's
  quiz round (not part of the sources), which repeats the draw until it comes back empty,
  is given with fuel (\<open>quiz_play\<close>); its fuel, the number of rows of the table, is proved
  enough in C31, since each draw removes one id from a finite set.

  \<^bold>\<open>Properties proved.\<close>
  \<^item> Pagination for every integer page: pages \<open>\<ge> 1\<close> (C1), negative pages counted
    from the end (C3); every successful listing is a contiguous run of at most ten
    questions (C28), and pages \<open>1..k\<close> list exactly the first \<open>10k\<close> questions (C29).
  \<^item> Deletion then reading (C2): after a deletion of an existing id, which answers 422, no
    page of the listing and no search shows the row.
  \<^item> Search: the results for a term without wildcards (C4), the 404 outside the
    \<^verbatim>\<open>finally\<close> (C5), the term \<^verbatim>\<open>_\<close> matching every non-empty question (C6), and
    the missing term (C7).
  \<^item> Deletion and creation: 404 for an unknown id (C8); an existing row is deleted and
    committed and the request still ends in 422, because the row object is not
    serialisable (C9); a missing field gives 422 with no change (C10); a complete body
    inserts the row with the next id and ends in 422 (C11).
  \<^item> Quiz and category listing: the drawn question is unseen and of the category (C12);
    nothing is drawn exactly when every eligible question was seen (C13); every well-formed
    quiz request ends in 422 (C14); the questions of a category end in 404 or 422 (C15);
    drawing with every drawn id as \<^verbatim>\<open>previous_questions\<close> plays every question of the
    category exactly once (C31).
  \<^item> Requests: the read-only endpoints never change the store (C16); four endpoints
    (deletion, creation, questions of a category, quiz) end in an exception on every request
    (C32); and every request refines the operation its endpoint allows on the id-to-row
    table (C30): a deletion removes at most the requested id, a creation adds at most one
    fresh entry carrying the body's fields, any other request changes nothing.
  \<^item> Listings: \<^verbatim>\<open>GET /questions\<close> never answers 400 (C17), an unparsable page is
    page 1 (C18), no categories give 404 (C19); \<^verbatim>\<open>GET /categories\<close> returns the
    category dictionary (C20).
  \<^item> Creation then search (C21): a complete creation request, although it answers 422,
    updates the id-to-row table by the update law of a map (a new entry under the next id,
    no other change), and a search for the new text finds the row.
  \<^item> Flask layer: \<^verbatim>\<open>create_app\<close> raises \<^verbatim>\<open>TypeError\<close> at line 160 (C22); the
    error handlers give the uniform JSON error body (C23); every response carries the two
    headers of \<^verbatim>\<open>after_request\<close> (C24) and none carries
    \<^verbatim>\<open>Access-Control-Allow-Origin\<close> (C25); a deletion without
    \<^verbatim>\<open>currentCategory\<close> (C26) and a search with a non-string term (C27) are answered
    with an HTML 500, as is a quiz request without \<^verbatim>\<open>previous_questions\<close> (C33).

  \<^bold>\<open>Not modelled.\<close> The model classes of \<^verbatim>\<open>starter.backend.models\<close> are outside
  the sources and are modelled from the specification (the queries and updates of
  \<open>Models\<close>); this is why the relational store is only partly modelled. Flask,
  Werkzeug, SQLAlchemy and flask-cors are libraries the sources call; they are modelled
  only as far as the handlers use them (\<open>Py_Runtime\<close>, \<open>Flask_Factory\<close>,
  \<open>Flask_App\<close>). Not modelled: URL matching of a built application (404 and 405 from
  the URL map, automatic \<^verbatim>\<open>OPTIONS\<close> and \<^verbatim>\<open>HEAD\<close> responses), since
  \<^verbatim>\<open>create_app\<close> raises before any application exists (C22) and each request is
  modelled from its route function on; \<^verbatim>\<open>request.get_json()\<close> on a body that is not
  JSON; Python's limit of 4300 digits on \<^verbatim>\<open>int()\<close> of a string (beyond it
  \<^verbatim>\<open>int()\<close> raises and the \<^verbatim>\<open>page\<close> argument falls back to 1, while the model
  parses it); the debug and testing modes that propagate exceptions instead of answering 500;
  PostgreSQL's default backslash escape in \<^verbatim>\<open>ILIKE\<close>; and the \<^verbatim>\<open>print\<close> in
  \<^verbatim>\<open>quizzes_search\<close> (console output only). The remaining lines of the source not
  covered by a definition are imports, docstrings and comments.
\<close>

end
